theory Spec2Isabelle
  imports Main
begin

section \<open>Values crossing the HTTP and the store boundary\<close>

text \<open>
  The handlers of \<^verbatim>\<open>server.ts\<close> read the fields of \<^verbatim>\<open>req.body\<close>, which
  \<^verbatim>\<open>express.json()\<close> parsed from JSON, and pass them on to prepared SQLite statements.
  A field is a JSON value, or \<open>JUndefined\<close> when the body does not have it. Strings are
  byte strings (UTF-8). \<open>JNum n\<close> is the number \<open>n\<close>; the model has the integers.
\<close>

datatype jsval =
    JUndefined
  | JNull
  | JBool bool
  | JNum int
  | JStr string
  | JArr "jsval list"
  | JObj "(string \<times> jsval) list"

text \<open>
  JavaScript truthiness, as used by \<^verbatim>\<open>if (password)\<close> and \<^verbatim>\<open>role || 'editor'\<close>: arrays
  and objects are truthy, also when empty.
\<close>

fun truthy :: "jsval \<Rightarrow> bool" where
  "truthy JUndefined = False"
| "truthy JNull = False"
| "truthy (JBool b) = b"
| "truthy (JNum n) = (n \<noteq> 0)"
| "truthy (JStr s) = (s \<noteq> [])"
| "truthy (JArr xs) = True"
| "truthy (JObj kvs) = True"

definition js_or :: "jsval \<Rightarrow> jsval \<Rightarrow> jsval" where
  "js_or a b = (if truthy a then a else b)"

text \<open>The body of a request: \<open>b ''username''\<close> is \<^verbatim>\<open>req.body.username\<close>.\<close>

type_synonym js_body = "string \<Rightarrow> jsval"

text \<open>
  What a TEXT column of the store holds: NULL or a text. (The integer key of a row is a
  field of its own in the row records below.)
\<close>

datatype sqlval = SNull | SText string

text \<open>A column value read back into JavaScript.\<close>

fun js_of :: "sqlval \<Rightarrow> jsval" where
  "js_of SNull = JNull"
| "js_of (SText s) = JStr s"

text \<open>SQL \<open>=\<close> in a WHERE clause: a comparison with NULL never selects a row.\<close>

definition sql_eq :: "sqlval \<Rightarrow> sqlval \<Rightarrow> bool" where
  "sql_eq a b = (a \<noteq> SNull \<and> b \<noteq> SNull \<and> a = b)"

text \<open>JSON documents sent by \<^verbatim>\<open>res.json\<close>.\<close>

datatype json = Val jsval | Obj "(string \<times> json) list" | Arr "json list"

text \<open>
  An exception: \<^verbatim>\<open>error.code\<close> (absent on a \<^verbatim>\<open>TypeError\<close> or \<^verbatim>\<open>RangeError\<close>) and
  \<^verbatim>\<open>error.message\<close>.
\<close>

datatype js_error = JsError (err_code: "string option") (err_message: string)

text \<open>
  What a handler does with a request: it sends a response (status and JSON body), or
  an exception leaves the handler uncaught.
\<close>

datatype outcome = Responds nat json | Throws js_error

definition failure :: "string \<Rightarrow> json" where
  "failure msg = Obj [(''success'', Val (JBool False)), (''message'', Val (JStr msg))]"

definition success :: json where
  "success = Obj [(''success'', Val (JBool True))]"


section \<open>Binding parameters\<close>

text \<open>A non-negative integer as JavaScript prints it: decimal digits.\<close>

definition digit_char :: "nat \<Rightarrow> char" where
  "digit_char n = ''0123456789'' ! n"

function show_nat :: "nat \<Rightarrow> string" where
  "show_nat n = (if n < 10 then [digit_char n] else show_nat (n div 10) @ [digit_char (n mod 10)])"
  by pat_completeness auto
termination
  by (relation "measure (\<lambda>n. n)") auto

declare show_nat.simps [simp del]

text \<open>
  The driver binds a JavaScript number as a double. Every body field of this program
  is stored into, or compared with, a TEXT column, whose affinity turns the double into
  its text: 5 becomes \<open>5.0\<close>. (So prints SQLite an integer below \<open>10^15\<close> in magnitude;
  a larger one prints with an exponent. No statement below depends on the digits.)
\<close>

definition number_text :: "int \<Rightarrow> string" where
  "number_text n = (if n < 0 then ''-'' else []) @ show_nat (nat \<bar>n\<bar>) @ ''.0''"

definition bind_type_error :: js_error where
  "bind_type_error =
     JsError None ''SQLite3 can only bind numbers, strings, bigints, buffers, and null''"

definition too_many_values :: js_error where
  "too_many_values = JsError None ''Too many parameter values were provided''"

definition too_few_values :: js_error where
  "too_few_values = JsError None ''Too few parameter values were provided''"

definition two_objects :: js_error where
  "two_objects = JsError None ''You cannot specify named parameters in two different objects''"

text \<open>
  Binding one value to one parameter: a string binds as text, a number as said above,
  \<^verbatim>\<open>null\<close> and \<^verbatim>\<open>undefined\<close> as NULL; the driver refuses every other value (a boolean, and
  an array or object inside an array) with a \<^verbatim>\<open>TypeError\<close>.
\<close>

fun bind_value :: "jsval \<Rightarrow> js_error + sqlval" where
  "bind_value JUndefined = Inr SNull"
| "bind_value JNull = Inr SNull"
| "bind_value (JNum n) = Inr (SText (number_text n))"
| "bind_value (JStr s) = Inr (SText s)"
| "bind_value (JBool b) = Inl bind_type_error"
| "bind_value (JArr xs) = Inl bind_type_error"
| "bind_value (JObj kvs) = Inl bind_type_error"

text \<open>
  Binding the arguments of \<^verbatim>\<open>.run(...)\<close> or \<^verbatim>\<open>.get(...)\<close> to a statement with \<open>n\<close>
  parameters \<^verbatim>\<open>?\<close> still free, in order. An array argument is spread: its elements
  take the next parameters. A plain object argument holds named parameters, of which
  these statements have none: it binds nothing, and a second one is refused (\<open>seen\<close>
  says that one was met). A value beyond the last parameter, or a parameter left
  without value, is a \<^verbatim>\<open>RangeError\<close>. The first failure ends the binding: the statement
  does not run.
\<close>

fun bind_args :: "nat \<Rightarrow> bool \<Rightarrow> jsval list \<Rightarrow> js_error + sqlval list" where
  "bind_args n seen [] = (if n = 0 then Inr [] else Inl too_few_values)"
| "bind_args n seen (JArr [] # args) = bind_args n seen args"
| "bind_args n seen (JArr (x # xs) # args) =
     (case bind_value x of
        Inl e \<Rightarrow> Inl e
      | Inr v \<Rightarrow>
          if n = 0 then Inl too_many_values
          else (case bind_args (n - 1) seen (JArr xs # args) of
                  Inl e \<Rightarrow> Inl e
                | Inr vs \<Rightarrow> Inr (v # vs)))"
| "bind_args n seen (JObj kvs # args) =
     (if seen then Inl two_objects else bind_args n True args)"
| "bind_args n seen (x # args) =
     (case bind_value x of
        Inl e \<Rightarrow> Inl e
      | Inr v \<Rightarrow>
          if n = 0 then Inl too_many_values
          else (case bind_args (n - 1) seen args of
                  Inl e \<Rightarrow> Inl e
                | Inr vs \<Rightarrow> Inr (v # vs)))"

text \<open>
  A prepared statement with \<open>n\<close> parameters, called with \<open>args\<close>: the arguments are bound,
  then the statement \<open>exec\<close> runs on the bound values.
\<close>

definition with_params ::
  "nat \<Rightarrow> jsval list \<Rightarrow> (sqlval list \<Rightarrow> js_error + 'a) \<Rightarrow> js_error + 'a" where
  "with_params n args exec =
     (case bind_args n False args of
        Inl e \<Rightarrow> Inl e
      | Inr vs \<Rightarrow> exec vs)"

text \<open>
  \<^verbatim>\<open>req.params.id\<close> is a text, so it always binds; it is the last argument of the
  statements that have it. (How the store reads it as a key is \<open>row_key\<close> below.)
\<close>

definition id_argument :: jsval where
  "id_argument = JStr ''id''"

text \<open>
  Fields that bind one value each: a string, a number, \<^verbatim>\<open>null\<close> or an absent field, and
  among them those that are no number. \<open>sql_of\<close> is the value such a field binds.
\<close>

fun plain :: "jsval \<Rightarrow> bool" where
  "plain (JBool b) = False"
| "plain (JArr xs) = False"
| "plain (JObj kvs) = False"
| "plain v = True"

fun textual :: "jsval \<Rightarrow> bool" where
  "textual JUndefined = True"
| "textual JNull = True"
| "textual (JStr s) = True"
| "textual v = False"

fun sql_of :: "jsval \<Rightarrow> sqlval" where
  "sql_of (JStr s) = SText s"
| "sql_of (JNum n) = SText (number_text n)"
| "sql_of v = SNull"

text \<open>Fields that are no arrays and no objects.\<close>

fun scalar :: "jsval \<Rightarrow> bool" where
  "scalar (JArr xs) = False"
| "scalar (JObj kvs) = False"
| "scalar v = True"


section \<open>The store\<close>

text \<open>
  The three tables as the schema of \<^verbatim>\<open>startServer\<close> declares them, rows in rowid order.
  \<open>*_seq\<close> is the AUTOINCREMENT counter of a table (the largest rowid ever assigned).
\<close>

record user_row =
  u_id :: int
  u_username :: sqlval
  u_password :: sqlval
  u_name :: sqlval
  u_role :: sqlval

record service_row =
  s_id :: int
  s_title :: sqlval
  s_description :: sqlval
  s_icon :: sqlval
  s_file_url :: sqlval

record team_row =
  t_id :: int
  t_name :: sqlval
  t_title :: sqlval
  t_image :: sqlval
  t_icon :: sqlval

record db =
  users :: "user_row list"
  users_seq :: int
  services :: "service_row list"
  services_seq :: int
  team :: "team_row list"
  team_seq :: int

text \<open>
  The constraints the schema puts on \<open>users\<close>: \<^verbatim>\<open>id INTEGER PRIMARY KEY\<close> and
  \<^verbatim>\<open>username TEXT UNIQUE\<close> (NULL usernames are exempt from UNIQUE).
\<close>

definition users_wf :: "user_row list \<Rightarrow> bool" where
  "users_wf rows =
     (distinct (map u_id rows) \<and>
      (\<forall>u\<in>set rows. \<forall>v\<in>set rows.
          u_username u \<noteq> SNull \<and> u_username u = u_username v \<longrightarrow> u_id u = u_id v))"

text \<open>
  A statement, its parameters bound, either runs or raises. \<open>fault\<close> is what the run
  raises for a reason other than the statement's own constraint checks (an I/O error, a
  full disk): \<open>None\<close> when there is no such failure. A statement that raises leaves the
  store as it was.
\<close>

definition unique_violation :: js_error where
  "unique_violation =
     JsError (Some ''SQLITE_CONSTRAINT_UNIQUE'') ''UNIQUE constraint failed: users.username''"

text \<open>AUTOINCREMENT: one more than the largest rowid the table holds or ever held.\<close>

definition new_rowid :: "int \<Rightarrow> int list \<Rightarrow> int" where
  "new_rowid seq ids = fold max ids seq + 1"

text \<open>
  \<^verbatim>\<open>req.params.id\<close> is a text; \<^verbatim>\<open>WHERE id = ?\<close> compares it with the integer key, so it
  selects the row with key \<open>k\<close> when it reads as the integer \<open>k\<close>, and no row when it reads
  as no integer. The handlers take that reading: \<open>Some k\<close> or \<open>None\<close>.
\<close>

type_synonym row_key = "int option"

subsection \<open>Statements on users\<close>

text \<open>\<^verbatim>\<open>SELECT * FROM users WHERE username = ? AND password = ?\<close>, \<^verbatim>\<open>.get\<close>: the first row.\<close>

definition select_user_login ::
  "js_error option \<Rightarrow> db \<Rightarrow> sqlval \<Rightarrow> sqlval \<Rightarrow> js_error + user_row option" where
  "select_user_login fault d un pw =
     (case fault of
        Some e \<Rightarrow> Inl e
      | None \<Rightarrow> Inr (find (\<lambda>u. sql_eq (u_username u) un \<and> sql_eq (u_password u) pw) (users d)))"

text \<open>\<^verbatim>\<open>INSERT INTO users (username, password, name, role) VALUES (?, ?, ?, ?)\<close>\<close>

definition insert_user ::
  "js_error option \<Rightarrow> db \<Rightarrow> sqlval \<Rightarrow> sqlval \<Rightarrow> sqlval \<Rightarrow> sqlval \<Rightarrow> js_error + (int \<times> db)" where
  "insert_user fault d un pw nm rl =
     (case fault of
        Some e \<Rightarrow> Inl e
      | None \<Rightarrow>
          if list_ex (\<lambda>u. sql_eq (u_username u) un) (users d) then Inl unique_violation
          else
            let rowid = new_rowid (users_seq d) (map u_id (users d)) in
            Inr (rowid,
                 d\<lparr>users := users d @
                      [\<lparr>u_id = rowid, u_username = un, u_password = pw, u_name = nm, u_role = rl\<rparr>],
                    users_seq := rowid\<rparr>))"

text \<open>
  \<^verbatim>\<open>UPDATE users SET username = ?, ... WHERE id = ?\<close>: \<open>un\<close> is the new username and
  \<open>assign\<close> the assignments of the SET clause. The update is refused when it would
  give a row the username of another row.
\<close>

definition update_users_where_id ::
  "js_error option \<Rightarrow> db \<Rightarrow> sqlval \<Rightarrow> (user_row \<Rightarrow> user_row) \<Rightarrow> row_key \<Rightarrow> js_error + db" where
  "update_users_where_id fault d un assign rid =
     (case fault of
        Some e \<Rightarrow> Inl e
      | None \<Rightarrow>
          (case rid of
             None \<Rightarrow> Inr d
           | Some k \<Rightarrow>
               if list_ex (\<lambda>u. u_id u = k) (users d) \<and>
                  list_ex (\<lambda>u. u_id u \<noteq> k \<and> sql_eq (u_username u) un) (users d)
               then Inl unique_violation
               else Inr (d\<lparr>users := map (\<lambda>u. if u_id u = k then assign u else u) (users d)\<rparr>)))"

text \<open>\<^verbatim>\<open>UPDATE users SET username = ?, password = ?, name = ?, role = ? WHERE id = ?\<close>\<close>

definition update_user_with_password ::
  "js_error option \<Rightarrow> db \<Rightarrow> sqlval \<Rightarrow> sqlval \<Rightarrow> sqlval \<Rightarrow> sqlval \<Rightarrow> row_key \<Rightarrow> js_error + db" where
  "update_user_with_password fault d un pw nm rl rid =
     update_users_where_id fault d un
       (\<lambda>u. u\<lparr>u_username := un, u_password := pw, u_name := nm, u_role := rl\<rparr>) rid"

text \<open>\<^verbatim>\<open>UPDATE users SET username = ?, name = ?, role = ? WHERE id = ?\<close>\<close>

definition update_user_keep_password ::
  "js_error option \<Rightarrow> db \<Rightarrow> sqlval \<Rightarrow> sqlval \<Rightarrow> sqlval \<Rightarrow> row_key \<Rightarrow> js_error + db" where
  "update_user_keep_password fault d un nm rl rid =
     update_users_where_id fault d un
       (\<lambda>u. u\<lparr>u_username := un, u_name := nm, u_role := rl\<rparr>) rid"

text \<open>\<^verbatim>\<open>DELETE FROM users WHERE id = ?\<close>\<close>

definition delete_user :: "js_error option \<Rightarrow> db \<Rightarrow> row_key \<Rightarrow> js_error + db" where
  "delete_user fault d rid =
     (case fault of
        Some e \<Rightarrow> Inl e
      | None \<Rightarrow> Inr (d\<lparr>users := filter (\<lambda>u. Some (u_id u) \<noteq> rid) (users d)\<rparr>))"

subsection \<open>Statements on services\<close>

text \<open>
  \<^verbatim>\<open>INSERT INTO services (title, description, icon, file_url) VALUES (?, ?, ?, ?)\<close>; the
  seeding statement leaves \<^verbatim>\<open>file_url\<close> out, which stores NULL there.
\<close>

definition insert_service ::
  "js_error option \<Rightarrow> db \<Rightarrow> sqlval \<Rightarrow> sqlval \<Rightarrow> sqlval \<Rightarrow> sqlval \<Rightarrow> js_error + (int \<times> db)" where
  "insert_service fault d ti de ic fu =
     (case fault of
        Some e \<Rightarrow> Inl e
      | None \<Rightarrow>
          let rowid = new_rowid (services_seq d) (map s_id (services d)) in
          Inr (rowid,
               d\<lparr>services := services d @
                    [\<lparr>s_id = rowid, s_title = ti, s_description = de, s_icon = ic, s_file_url = fu\<rparr>],
                  services_seq := rowid\<rparr>))"

text \<open>\<^verbatim>\<open>UPDATE services SET title = ?, description = ?, icon = ?, file_url = ? WHERE id = ?\<close>\<close>

definition update_service ::
  "js_error option \<Rightarrow> db \<Rightarrow> sqlval \<Rightarrow> sqlval \<Rightarrow> sqlval \<Rightarrow> sqlval \<Rightarrow> row_key \<Rightarrow> js_error + db" where
  "update_service fault d ti de ic fu rid =
     (case fault of
        Some e \<Rightarrow> Inl e
      | None \<Rightarrow>
          Inr (d\<lparr>services :=
                 map (\<lambda>r. if Some (s_id r) = rid
                          then r\<lparr>s_title := ti, s_description := de, s_icon := ic, s_file_url := fu\<rparr>
                          else r) (services d)\<rparr>))"

text \<open>\<^verbatim>\<open>DELETE FROM services WHERE id = ?\<close>\<close>

definition delete_service :: "js_error option \<Rightarrow> db \<Rightarrow> row_key \<Rightarrow> js_error + db" where
  "delete_service fault d rid =
     (case fault of
        Some e \<Rightarrow> Inl e
      | None \<Rightarrow> Inr (d\<lparr>services := filter (\<lambda>r. Some (s_id r) \<noteq> rid) (services d)\<rparr>))"

subsection \<open>Statements on team\<close>

text \<open>
  \<^verbatim>\<open>INSERT INTO team (name, title, image, icon) VALUES (?, ?, ?, ?)\<close>; the seeding
  statement leaves \<^verbatim>\<open>icon\<close> out, which stores NULL there.
\<close>

definition insert_team ::
  "js_error option \<Rightarrow> db \<Rightarrow> sqlval \<Rightarrow> sqlval \<Rightarrow> sqlval \<Rightarrow> sqlval \<Rightarrow> js_error + (int \<times> db)" where
  "insert_team fault d nm ti im ic =
     (case fault of
        Some e \<Rightarrow> Inl e
      | None \<Rightarrow>
          let rowid = new_rowid (team_seq d) (map t_id (team d)) in
          Inr (rowid,
               d\<lparr>team := team d @
                    [\<lparr>t_id = rowid, t_name = nm, t_title = ti, t_image = im, t_icon = ic\<rparr>],
                  team_seq := rowid\<rparr>))"

text \<open>\<^verbatim>\<open>UPDATE team SET name = ?, title = ?, image = ?, icon = ? WHERE id = ?\<close>\<close>

definition update_team ::
  "js_error option \<Rightarrow> db \<Rightarrow> sqlval \<Rightarrow> sqlval \<Rightarrow> sqlval \<Rightarrow> sqlval \<Rightarrow> row_key \<Rightarrow> js_error + db" where
  "update_team fault d nm ti im ic rid =
     (case fault of
        Some e \<Rightarrow> Inl e
      | None \<Rightarrow>
          Inr (d\<lparr>team :=
                 map (\<lambda>r. if Some (t_id r) = rid
                          then r\<lparr>t_name := nm, t_title := ti, t_image := im, t_icon := ic\<rparr>
                          else r) (team d)\<rparr>))"

text \<open>\<^verbatim>\<open>DELETE FROM team WHERE id = ?\<close>\<close>

definition delete_team :: "js_error option \<Rightarrow> db \<Rightarrow> row_key \<Rightarrow> js_error + db" where
  "delete_team fault d rid =
     (case fault of
        Some e \<Rightarrow> Inl e
      | None \<Rightarrow> Inr (d\<lparr>team := filter (\<lambda>r. Some (t_id r) \<noteq> rid) (team d)\<rparr>))"


section \<open>Schema setup\<close>

text \<open>
  SQLite names tables and columns without regard to the case of ASCII letters. A column
  keeps the spelling it was declared with, which is what \<^verbatim>\<open>PRAGMA table_info\<close> reports
  and what the migration compares with \<^verbatim>\<open>===\<close>.
\<close>

definition ascii_lower :: "char \<Rightarrow> char" where
  "ascii_lower c =
     (case map_of (zip ''ABCDEFGHIJKLMNOPQRSTUVWXYZ'' ''abcdefghijklmnopqrstuvwxyz'') c of
        Some l \<Rightarrow> l
      | None \<Rightarrow> c)"

definition fold_case :: "string \<Rightarrow> string" where
  "fold_case s = map ascii_lower s"

definition same_name :: "string \<Rightarrow> string \<Rightarrow> bool" where
  "same_name a b = (fold_case a = fold_case b)"

text \<open>
  A column: name, declared type, constraint, default, and whether it is hidden from
  \<^verbatim>\<open>PRAGMA table_info\<close> (a generated column is).
\<close>

record column =
  col_name :: string
  col_type :: string
  col_constraint :: string
  col_default :: "string option"
  col_hidden :: bool

text \<open>
  What a name stands for in a data file: an ordinary table, a view, a virtual table
  (each with its columns in declaration order), or an index. Tables, views and indexes
  share one name space; the schema maps a name, in lower case, to its object.
\<close>

datatype schema_object =
    Table "column list"
  | View "column list"
  | Virtual_table "column list"
  | Index

type_synonym schema = "string \<Rightarrow> schema_object option"

fun columns_of :: "schema_object \<Rightarrow> column list" where
  "columns_of (Table cs) = cs"
| "columns_of (View cs) = cs"
| "columns_of (Virtual_table cs) = cs"
| "columns_of Index = []"

definition plain_column :: "string \<Rightarrow> string \<Rightarrow> column" where
  "plain_column n ty =
     \<lparr>col_name = n, col_type = ty, col_constraint = [], col_default = None, col_hidden = False\<rparr>"

definition id_column :: column where
  "id_column = \<lparr>col_name = ''id'', col_type = ''INTEGER'',
                 col_constraint = ''PRIMARY KEY AUTOINCREMENT'', col_default = None,
                 col_hidden = False\<rparr>"

definition role_column :: column where
  "role_column = \<lparr>col_name = ''role'', col_type = ''TEXT'', col_constraint = [],
                   col_default = Some ''editor'', col_hidden = False\<rparr>"

definition users_columns :: "column list" where
  "users_columns =
     [id_column,
      \<lparr>col_name = ''username'', col_type = ''TEXT'', col_constraint = ''UNIQUE'',
       col_default = None, col_hidden = False\<rparr>,
      plain_column ''password'' ''TEXT'',
      plain_column ''name'' ''TEXT'',
      role_column]"

definition services_columns :: "column list" where
  "services_columns =
     [id_column, plain_column ''title'' ''TEXT'', plain_column ''description'' ''TEXT'',
      plain_column ''icon'' ''TEXT'', plain_column ''file_url'' ''TEXT'']"

definition team_columns :: "column list" where
  "team_columns =
     [id_column, plain_column ''name'' ''TEXT'', plain_column ''title'' ''TEXT'',
      plain_column ''image'' ''TEXT'', plain_column ''icon'' ''TEXT'']"

text \<open>
  \<^verbatim>\<open>CREATE TABLE IF NOT EXISTS t (...)\<close>: nothing happens when a table or view \<open>t\<close>
  exists; the statement raises when an index has the name.
\<close>

definition create_table_if_not_exists :: "string \<Rightarrow> column list \<Rightarrow> schema \<Rightarrow> string + schema" where
  "create_table_if_not_exists t cols s =
     (case s (fold_case t) of
        None \<Rightarrow> Inr (s(fold_case t \<mapsto> Table cols))
      | Some Index \<Rightarrow> Inl (''there is already an index named '' @ t)
      | Some _ \<Rightarrow> Inr s)"

text \<open>
  \<^verbatim>\<open>PRAGMA table_info(t)\<close>: one row per column that is not hidden; no row when \<open>t\<close> is
  no table or view.
\<close>

definition table_info :: "schema \<Rightarrow> string \<Rightarrow> column list" where
  "table_info s t =
     (case s (fold_case t) of
        Some obj \<Rightarrow> filter (\<lambda>col. \<not> col_hidden col) (columns_of obj)
      | None \<Rightarrow> [])"

text \<open>The most columns a table may have (SQLite's default limit).\<close>

definition max_columns :: nat where
  "max_columns = 2000"

text \<open>
  \<^verbatim>\<open>ALTER TABLE t ADD COLUMN c\<close>: raises when \<open>t\<close> is no ordinary table, when the table is
  full, and when it has a column of that name, hidden or not, in whatever letter case.
\<close>

definition alter_table_add_column :: "string \<Rightarrow> column \<Rightarrow> schema \<Rightarrow> string + schema" where
  "alter_table_add_column t c s =
     (case s (fold_case t) of
        None \<Rightarrow> Inl (''no such table: '' @ t)
      | Some Index \<Rightarrow> Inl (''no such table: '' @ t)
      | Some (View cs) \<Rightarrow> Inl ''Cannot add a column to a view''
      | Some (Virtual_table cs) \<Rightarrow> Inl ''virtual tables may not be altered''
      | Some (Table cs) \<Rightarrow>
          if max_columns \<le> length cs then Inl (''too many columns on sqlite_altertab_'' @ t)
          else if list_ex (\<lambda>col. same_name (col_name col) (col_name c)) cs
          then Inl (''duplicate column name: '' @ col_name c)
          else Inr (s(fold_case t \<mapsto> Table (cs @ [c]))))"

text \<open>
  One migration block of \<^verbatim>\<open>startServer\<close>: look for the column by its exact name and add
  it when it is not found; an exception is caught and logged with \<^verbatim>\<open>console.error\<close>.
  The state is the schema and the errors logged so far.
\<close>

definition migrate_column ::
  "string \<Rightarrow> column \<Rightarrow> string \<Rightarrow> schema \<times> string list \<Rightarrow> schema \<times> string list" where
  "migrate_column t c msg st =
     (let tableInfo = table_info (fst st) t;
          hasColumn = list_ex (\<lambda>col. col_name col = col_name c) tableInfo
      in if \<not> hasColumn
         then (case alter_table_add_column t c (fst st) of
                 Inr s' \<Rightarrow> (s', snd st)
               | Inl error \<Rightarrow> (fst st, snd st @ [msg @ '' '' @ error]))
         else st)"

text \<open>
  The schema part of \<^verbatim>\<open>startServer\<close>, in the order of the source. The CREATE statements
  stand outside the try blocks: what one raises leaves \<^verbatim>\<open>startServer\<close>, and the rest
  of the setup does not run. The result is the schema reached, the errors logged, and
  the exception that ended the setup, if any.
\<close>

definition schema_setup :: "schema \<Rightarrow> schema \<times> string list \<times> string option" where
  "schema_setup s =
     (case create_table_if_not_exists ''users'' users_columns s of
        Inl e \<Rightarrow> (s, [], Some e)
      | Inr s1 \<Rightarrow>
          (let st2 = migrate_column ''users'' role_column
                       ''Error checking/adding role column:'' (s1, [])
           in case create_table_if_not_exists ''services'' services_columns (fst st2) of
                Inl e \<Rightarrow> (fst st2, snd st2, Some e)
              | Inr s3 \<Rightarrow>
                  (let st4 = migrate_column ''services'' (plain_column ''file_url'' ''TEXT'')
                               ''Error checking/adding file_url column to services table:''
                               (s3, snd st2)
                   in case create_table_if_not_exists ''team'' team_columns (fst st4) of
                        Inl e \<Rightarrow> (fst st4, snd st4, Some e)
                      | Inr s5 \<Rightarrow>
                          (let st6 = migrate_column ''team'' (plain_column ''icon'' ''TEXT'')
                                       ''Error checking/adding icon column to team table:''
                                       (s5, snd st4)
                           in (fst st6, snd st6, None)))))"

text \<open>No table has two columns of one name.\<close>

definition no_duplicate_columns :: "schema \<Rightarrow> bool" where
  "no_duplicate_columns s =
     (\<forall>t obj. s t = Some obj \<longrightarrow> distinct (map (\<lambda>c. fold_case (col_name c)) (columns_of obj)))"

text \<open>
  A name the setup finds ready for column \<open>c\<close>: nothing has the name yet, or an ordinary
  table has it that either shows the column under its exact name or has room for it
  and no column of that name.
\<close>

definition ready_for :: "schema \<Rightarrow> string \<Rightarrow> column \<Rightarrow> bool" where
  "ready_for s t c =
     (case s (fold_case t) of
        None \<Rightarrow> True
      | Some (Table cs) \<Rightarrow>
          list_ex (\<lambda>col. col_name col = col_name c) (filter (\<lambda>col. \<not> col_hidden col) cs) \<or>
          (length cs < max_columns \<and>
           \<not> list_ex (\<lambda>col. same_name (col_name col) (col_name c)) cs)
      | Some _ \<Rightarrow> False)"

text \<open>
  What the setup makes of a name, by what the name stood for before (\<open>None\<close>: nothing);
  \<open>cols\<close> are the columns of the CREATE TABLE statement and \<open>c\<close> is the column of the
  migration. Used to state what \<open>schema_setup\<close> computes.
\<close>

definition object_after_setup :: "column list \<Rightarrow> column \<Rightarrow> schema_object option \<Rightarrow> schema_object" where
  "object_after_setup cols c prior =
     (case prior of
        None \<Rightarrow> Table cols
      | Some (Table cs) \<Rightarrow>
          if list_ex (\<lambda>col. col_name col = col_name c) (filter (\<lambda>col. \<not> col_hidden col) cs) \<or>
             max_columns \<le> length cs \<or>
             list_ex (\<lambda>col. same_name (col_name col) (col_name c)) cs
          then Table cs else Table (cs @ [c])
      | Some obj \<Rightarrow> obj)"

text \<open>The error a migration block logs, by what its table was before the setup.\<close>

definition migration_errors ::
  "string \<Rightarrow> column \<Rightarrow> string \<Rightarrow> schema_object option \<Rightarrow> string list" where
  "migration_errors t c msg prior =
     (case prior of
        None \<Rightarrow> []
      | Some obj \<Rightarrow>
          if list_ex (\<lambda>col. col_name col = col_name c)
               (filter (\<lambda>col. \<not> col_hidden col) (columns_of obj))
          then []
          else (case obj of
                  Table cs \<Rightarrow>
                    if max_columns \<le> length cs
                    then [msg @ '' '' @ ''too many columns on sqlite_altertab_'' @ t]
                    else if list_ex (\<lambda>col. same_name (col_name col) (col_name c)) cs
                    then [msg @ '' '' @ ''duplicate column name: '' @ col_name c]
                    else []
                | View cs \<Rightarrow> [msg @ '' '' @ ''Cannot add a column to a view'']
                | Virtual_table cs \<Rightarrow> [msg @ '' '' @ ''virtual tables may not be altered'']
                | Index \<Rightarrow> [msg @ '' '' @ ''no such table: '' @ t]))"


section \<open>Seeding\<close>

text \<open>
  The seeding part of \<^verbatim>\<open>startServer\<close>, on a store whose calls run (no fault). There is
  no try/catch: an exception would leave \<^verbatim>\<open>startServer\<close>.
\<close>

definition seed_admin :: "db \<Rightarrow> js_error + db" where
  "seed_admin d =
     (let checkUser = find (\<lambda>u. sql_eq (u_username u) (SText ''admin'')) (users d) in
      case checkUser of
        None \<Rightarrow>
          (case insert_user None d (SText ''admin'') (SText ''123456'')
                  (SText ''Administrator'') (SText ''admin'') of
             Inl e \<Rightarrow> Inl e
           | Inr (_, d') \<Rightarrow> Inr d')
      | Some _ \<Rightarrow>
          Inr (d\<lparr>users :=
                 map (\<lambda>u. if sql_eq (u_username u) (SText ''admin'')
                          then u\<lparr>u_role := SText ''admin''\<rparr> else u) (users d)\<rparr>))"

record service_seed =
  ss_icon :: string
  ss_title :: string
  ss_description :: string

text \<open>The texts of \<^verbatim>\<open>initialServices\<close>, in UTF-8, named after the icon of their record.\<close>

definition title_Leaf :: string where
  "title_Leaf =
     ''M'' @ [CHR 0xC3, CHR 0xB4] @ ''i tr''
     @ [CHR 0xC6, CHR 0xB0, CHR 0xE1, CHR 0xBB, CHR 0x9D] @ ''ng & N''
     @ [CHR 0xC4, CHR 0x83] @ ''ng l''
     @ [CHR 0xC6, CHR 0xB0, CHR 0xE1, CHR 0xBB, CHR 0xA3] @ ''ng''"

definition description_Leaf :: string where
  "description_Leaf =
     ''T'' @ [CHR 0xC6, CHR 0xB0] @ '' v'' @ [CHR 0xE1, CHR 0xBA, CHR 0xA5] @ ''n tu''
     @ [CHR 0xC3, CHR 0xA2] @ ''n th'' @ [CHR 0xE1, CHR 0xBB, CHR 0xA7] @ '' quy ''
     @ [CHR 0xC4, CHR 0x91, CHR 0xE1, CHR 0xBB, CHR 0x8B] @ ''nh m''
     @ [CHR 0xC3, CHR 0xB4] @ ''i tr''
     @ [CHR 0xC6, CHR 0xB0, CHR 0xE1, CHR 0xBB, CHR 0x9D] @ ''ng, ''
     @ [CHR 0xC4, CHR 0x91, CHR 0xC3, CHR 0xA1] @ ''nh gi'' @ [CHR 0xC3, CHR 0xA1]
     @ '' t'' @ [CHR 0xC3, CHR 0xA1] @ ''c ''
     @ [CHR 0xC4, CHR 0x91, CHR 0xE1, CHR 0xBB, CHR 0x99] @ ''ng v''
     @ [CHR 0xC3, CHR 0xA0] @ '' ph'' @ [CHR 0xC3, CHR 0xA1] @ ''t tri''
     @ [CHR 0xE1, CHR 0xBB, CHR 0x83] @ ''n d'' @ [CHR 0xE1, CHR 0xBB, CHR 0xB1] @ '' ''
     @ [CHR 0xC3, CHR 0xA1] @ ''n n'' @ [CHR 0xC4, CHR 0x83] @ ''ng l''
     @ [CHR 0xC6, CHR 0xB0, CHR 0xE1, CHR 0xBB, CHR 0xA3] @ ''ng t''
     @ [CHR 0xC3, CHR 0xA1] @ ''i t'' @ [CHR 0xE1, CHR 0xBA, CHR 0xA1] @ ''o.''"

definition title_Globe :: string where
  "title_Globe =
     ''Du l'' @ [CHR 0xE1, CHR 0xBB, CHR 0x8B] @ ''ch & Kh'' @ [CHR 0xC3, CHR 0xA1]
     @ ''ch s'' @ [CHR 0xE1, CHR 0xBA, CHR 0xA1] @ ''n''"

definition description_Globe :: string where
  "description_Globe =
     ''H'' @ [CHR 0xE1, CHR 0xBB, CHR 0x97] @ '' tr'' @ [CHR 0xE1, CHR 0xBB, CHR 0xA3]
     @ '' ph'' @ [CHR 0xC3, CHR 0xA1] @ ''p l'' @ [CHR 0xC3, CHR 0xBD] @ '' to''
     @ [CHR 0xC3, CHR 0xA0] @ ''n di'' @ [CHR 0xE1, CHR 0xBB, CHR 0x87] @ ''n cho c''
     @ [CHR 0xC3, CHR 0xA1] @ ''c d'' @ [CHR 0xE1, CHR 0xBB, CHR 0xB1] @ '' ''
     @ [CHR 0xC3, CHR 0xA1] @ ''n ngh'' @ [CHR 0xE1, CHR 0xBB, CHR 0x89] @ '' d''
     @ [CHR 0xC6, CHR 0xB0, CHR 0xE1, CHR 0xBB, CHR 0xA1] @ ''ng, kh''
     @ [CHR 0xC3, CHR 0xA1] @ ''ch s'' @ [CHR 0xE1, CHR 0xBA, CHR 0xA1] @ ''n v''
     @ [CHR 0xC3, CHR 0xA0] @ '' kinh doanh l'' @ [CHR 0xE1, CHR 0xBB, CHR 0xAF]
     @ '' h'' @ [CHR 0xC3, CHR 0xA0] @ ''nh qu'' @ [CHR 0xE1, CHR 0xBB, CHR 0x91]
     @ ''c t'' @ [CHR 0xE1, CHR 0xBA, CHR 0xBF] @ ''.''"

definition title_Building2 :: string where
  "title_Building2 =
     ''B'' @ [CHR 0xE1, CHR 0xBA, CHR 0xA5] @ ''t ''
     @ [CHR 0xC4, CHR 0x91, CHR 0xE1, CHR 0xBB, CHR 0x99] @ ''ng s''
     @ [CHR 0xE1, CHR 0xBA, CHR 0xA3] @ ''n & X'' @ [CHR 0xC3, CHR 0xA2] @ ''y d''
     @ [CHR 0xE1, CHR 0xBB, CHR 0xB1] @ ''ng''"

definition description_Building2 :: string where
  "description_Building2 =
     ''T'' @ [CHR 0xC6, CHR 0xB0] @ '' v'' @ [CHR 0xE1, CHR 0xBA, CHR 0xA5] @ ''n ph''
     @ [CHR 0xC3, CHR 0xA1] @ ''p l'' @ [CHR 0xC3, CHR 0xBD] @ '' d''
     @ [CHR 0xE1, CHR 0xBB, CHR 0xB1] @ '' '' @ [CHR 0xC3, CHR 0xA1] @ ''n, giao d''
     @ [CHR 0xE1, CHR 0xBB, CHR 0x8B] @ ''ch mua b'' @ [CHR 0xC3, CHR 0xA1] @ ''n, s''
     @ [CHR 0xC3, CHR 0xA1] @ ''p nh'' @ [CHR 0xE1, CHR 0xBA, CHR 0xAD] @ ''p v''
     @ [CHR 0xC3, CHR 0xA0] @ '' gi'' @ [CHR 0xE1, CHR 0xBA, CHR 0xA3] @ ''i quy''
     @ [CHR 0xE1, CHR 0xBA, CHR 0xBF] @ ''t tranh ch'' @ [CHR 0xE1, CHR 0xBA, CHR 0xA5]
     @ ''p x'' @ [CHR 0xC3, CHR 0xA2] @ ''y d'' @ [CHR 0xE1, CHR 0xBB, CHR 0xB1]
     @ ''ng.''"

definition title_Briefcase :: string where
  "title_Briefcase =
     ''T'' @ [CHR 0xC6, CHR 0xB0] @ '' v'' @ [CHR 0xE1, CHR 0xBA, CHR 0xA5]
     @ ''n Doanh nghi'' @ [CHR 0xE1, CHR 0xBB, CHR 0x87] @ ''p''"

definition description_Briefcase :: string where
  "description_Briefcase =
     ''Th'' @ [CHR 0xC3, CHR 0xA0] @ ''nh l'' @ [CHR 0xE1, CHR 0xBA, CHR 0xAD]
     @ ''p, t'' @ [CHR 0xC3, CHR 0xA1] @ ''i c'' @ [CHR 0xE1, CHR 0xBA, CHR 0xA5]
     @ ''u tr'' @ [CHR 0xC3, CHR 0xBA] @ ''c, M&A v'' @ [CHR 0xC3, CHR 0xA0] @ '' qu''
     @ [CHR 0xE1, CHR 0xBA, CHR 0xA3] @ ''n tr'' @ [CHR 0xE1, CHR 0xBB, CHR 0x8B]
     @ '' n'' @ [CHR 0xE1, CHR 0xBB, CHR 0x99] @ ''i b''
     @ [CHR 0xE1, CHR 0xBB, CHR 0x99] @ '' doanh nghi'' @ [CHR 0xE1, CHR 0xBB, CHR 0x87]
     @ ''p theo chu'' @ [CHR 0xE1, CHR 0xBA, CHR 0xA9] @ ''n m''
     @ [CHR 0xE1, CHR 0xBB, CHR 0xB1] @ ''c qu'' @ [CHR 0xE1, CHR 0xBB, CHR 0x91]
     @ ''c t'' @ [CHR 0xE1, CHR 0xBA, CHR 0xBF] @ ''.''"

definition title_Gavel :: string where
  "title_Gavel =
     ''Tranh t'' @ [CHR 0xE1, CHR 0xBB, CHR 0xA5] @ ''ng & Gi''
     @ [CHR 0xE1, CHR 0xBA, CHR 0xA3] @ ''i quy'' @ [CHR 0xE1, CHR 0xBA, CHR 0xBF]
     @ ''t''"

definition description_Gavel :: string where
  "description_Gavel =
     [CHR 0xC4, CHR 0x90, CHR 0xE1, CHR 0xBA, CHR 0xA1] @ ''i di''
     @ [CHR 0xE1, CHR 0xBB, CHR 0x87] @ ''n tham gia t''
     @ [CHR 0xE1, CHR 0xBB, CHR 0x91] @ '' t'' @ [CHR 0xE1, CHR 0xBB, CHR 0xA5]
     @ ''ng t'' @ [CHR 0xE1, CHR 0xBA, CHR 0xA1] @ ''i T'' @ [CHR 0xC3, CHR 0xB2]
     @ ''a '' @ [CHR 0xC3, CHR 0xA1] @ ''n v'' @ [CHR 0xC3, CHR 0xA0] @ '' Tr''
     @ [CHR 0xE1, CHR 0xBB, CHR 0x8D] @ ''ng t'' @ [CHR 0xC3, CHR 0xA0] @ ''i th''
     @ [CHR 0xC6, CHR 0xB0, CHR 0xC6, CHR 0xA1] @ ''ng m''
     @ [CHR 0xE1, CHR 0xBA, CHR 0xA1] @ ''i v'' @ [CHR 0xE1, CHR 0xBB, CHR 0x9B]
     @ ''i chi'' @ [CHR 0xE1, CHR 0xBA, CHR 0xBF] @ ''n l''
     @ [CHR 0xC6, CHR 0xB0, CHR 0xE1, CHR 0xBB, CHR 0xA3] @ ''c hi''
     @ [CHR 0xE1, CHR 0xBB, CHR 0x87] @ ''u qu'' @ [CHR 0xE1, CHR 0xBA, CHR 0xA3]
     @ ''.''"

definition title_Scale :: string where
  "title_Scale =
     ''S'' @ [CHR 0xE1, CHR 0xBB, CHR 0x9F] @ '' h'' @ [CHR 0xE1, CHR 0xBB, CHR 0xAF]
     @ ''u tr'' @ [CHR 0xC3, CHR 0xAD] @ '' tu'' @ [CHR 0xE1, CHR 0xBB, CHR 0x87]"

definition description_Scale :: string where
  "description_Scale =
     [CHR 0xC4, CHR 0x90, CHR 0xC4, CHR 0x83] @ ''ng k'' @ [CHR 0xC3, CHR 0xBD] @ '' b''
     @ [CHR 0xE1, CHR 0xBA, CHR 0xA3] @ ''o h'' @ [CHR 0xE1, CHR 0xBB, CHR 0x99]
     @ '', li-x'' @ [CHR 0xC4, CHR 0x83] @ ''ng v'' @ [CHR 0xC3, CHR 0xA0] @ '' x''
     @ [CHR 0xE1, CHR 0xBB, CHR 0xAD] @ '' l'' @ [CHR 0xC3, CHR 0xBD] @ '' vi ph''
     @ [CHR 0xE1, CHR 0xBA, CHR 0xA1] @ ''m quy'' @ [CHR 0xE1, CHR 0xBB, CHR 0x81]
     @ ''n s'' @ [CHR 0xE1, CHR 0xBB, CHR 0x9F] @ '' h''
     @ [CHR 0xE1, CHR 0xBB, CHR 0xAF] @ ''u tr'' @ [CHR 0xC3, CHR 0xAD] @ '' tu''
     @ [CHR 0xE1, CHR 0xBB, CHR 0x87] @ '' cho th''
     @ [CHR 0xC6, CHR 0xB0, CHR 0xC6, CHR 0xA1] @ ''ng hi''
     @ [CHR 0xE1, CHR 0xBB, CHR 0x87] @ ''u.''"

definition initialServices :: "service_seed list" where
  "initialServices =
     [\<lparr>ss_icon = ''Leaf'', ss_title = title_Leaf, ss_description = description_Leaf\<rparr>,
      \<lparr>ss_icon = ''Globe'', ss_title = title_Globe, ss_description = description_Globe\<rparr>,
      \<lparr>ss_icon = ''Building2'', ss_title = title_Building2, ss_description = description_Building2\<rparr>,
      \<lparr>ss_icon = ''Briefcase'', ss_title = title_Briefcase, ss_description = description_Briefcase\<rparr>,
      \<lparr>ss_icon = ''Gavel'', ss_title = title_Gavel, ss_description = description_Gavel\<rparr>,
      \<lparr>ss_icon = ''Scale'', ss_title = title_Scale, ss_description = description_Scale\<rparr>]"

text \<open>\<^verbatim>\<open>initialServices.forEach(s => insertService.run(s.title, s.description, s.icon))\<close>\<close>

fun insert_services :: "service_seed list \<Rightarrow> db \<Rightarrow> js_error + db" where
  "insert_services [] d = Inr d"
| "insert_services (s # ss) d =
     (case insert_service None d (SText (ss_title s)) (SText (ss_description s))
             (SText (ss_icon s)) SNull of
        Inl e \<Rightarrow> Inl e
      | Inr (_, d') \<Rightarrow> insert_services ss d')"

text \<open>The rows of a list of seed records, under consecutive keys after \<open>k\<close>.\<close>

fun numbered_services :: "int \<Rightarrow> service_seed list \<Rightarrow> service_row list" where
  "numbered_services k [] = []"
| "numbered_services k (s # ss) =
     \<lparr>s_id = k + 1, s_title = SText (ss_title s), s_description = SText (ss_description s),
      s_icon = SText (ss_icon s), s_file_url = SNull\<rparr> # numbered_services (k + 1) ss"

definition seed_services :: "db \<Rightarrow> js_error + db" where
  "seed_services d =
     (let count = int (length (services d)) in
      if count = 0 then insert_services initialServices d else Inr d)"

record team_seed =
  ts_name :: string
  ts_title :: string
  ts_image :: string

text \<open>The texts of \<^verbatim>\<open>initialTeam\<close>, in UTF-8, numbered in the order of the source.\<close>

definition member1_name :: string where
  "member1_name =
     ''LS. L'' @ [CHR 0xC3, CHR 0xAA] @ '' V'' @ [CHR 0xC4, CHR 0x83] @ ''n T''
     @ [CHR 0xC3, CHR 0xA0] @ ''i''"

definition member1_title :: string where
  "member1_title =
     ''Gi'' @ [CHR 0xC3, CHR 0xA1] @ ''m ''
     @ [CHR 0xC4, CHR 0x91, CHR 0xE1, CHR 0xBB, CHR 0x91] @ ''c ''
     @ [CHR 0xC4, CHR 0x91] @ ''i'' @ [CHR 0xE1, CHR 0xBB, CHR 0x81] @ ''u h''
     @ [CHR 0xC3, CHR 0xA0] @ ''nh''"

definition member1_image :: string where
  "member1_image =
     ''https://images.unsplash.com/photo-1560250097-0b93528c311a?q=80&w=1974&auto=format&fit=crop''"

definition member2_name :: string where
  "member2_name =
     ''Mrs. Ph'' @ [CHR 0xE1, CHR 0xBA, CHR 0xA1] @ ''m Th''
     @ [CHR 0xE1, CHR 0xBB, CHR 0x8B] @ '' M'' @ [CHR 0xE1, CHR 0xBB, CHR 0xB9]
     @ '' Linh''"

definition member2_title :: string where
  "member2_title =
     ''Tr'' @ [CHR 0xC6, CHR 0xB0, CHR 0xE1, CHR 0xBB, CHR 0x9F] @ ''ng ban Quan h''
     @ [CHR 0xE1, CHR 0xBB, CHR 0x87] @ '' kh'' @ [CHR 0xC3, CHR 0xA1] @ ''ch h''
     @ [CHR 0xC3, CHR 0xA0] @ ''ng''"

definition member2_image :: string where
  "member2_image =
     ''https://images.unsplash.com/photo-1573496359142-b8d87734a5a2?q=80&w=1976&auto=format&fit=crop''"

definition member3_name :: string where
  "member3_name =
     ''LS. L'' @ [CHR 0xC3, CHR 0xAA] @ '' V'' @ [CHR 0xC4, CHR 0x83] @ ''n C''"

definition member3_title :: string where
  "member3_title =
     ''Lu'' @ [CHR 0xE1, CHR 0xBA, CHR 0xAD] @ ''t s'' @ [CHR 0xC6, CHR 0xB0]
     @ '' cao c'' @ [CHR 0xE1, CHR 0xBA, CHR 0xA5] @ ''p''"

definition member3_image :: string where
  "member3_image =
     ''https://images.unsplash.com/photo-1519085360753-af0119f7cbe7?q=80&w=1974&auto=format&fit=crop''"

definition initialTeam :: "team_seed list" where
  "initialTeam =
     [\<lparr>ts_name = member1_name, ts_title = member1_title, ts_image = member1_image\<rparr>,
      \<lparr>ts_name = member2_name, ts_title = member2_title, ts_image = member2_image\<rparr>,
      \<lparr>ts_name = member3_name, ts_title = member3_title, ts_image = member3_image\<rparr>]"

text \<open>\<^verbatim>\<open>initialTeam.forEach(t => insertTeam.run(t.name, t.title, t.image))\<close>\<close>

fun insert_team_members :: "team_seed list \<Rightarrow> db \<Rightarrow> js_error + db" where
  "insert_team_members [] d = Inr d"
| "insert_team_members (t # ts) d =
     (case insert_team None d (SText (ts_name t)) (SText (ts_title t)) (SText (ts_image t))
             SNull of
        Inl e \<Rightarrow> Inl e
      | Inr (_, d') \<Rightarrow> insert_team_members ts d')"

definition seed_team :: "db \<Rightarrow> js_error + db" where
  "seed_team d =
     (let count = int (length (team d)) in
      if count = 0 then insert_team_members initialTeam d else Inr d)"

text \<open>The three seeding steps in the order of \<^verbatim>\<open>startServer\<close>.\<close>

definition seed :: "db \<Rightarrow> js_error + db" where
  "seed d =
     (case seed_admin d of
        Inl e \<Rightarrow> Inl e
      | Inr d1 \<Rightarrow>
          (case seed_services d1 of
             Inl e \<Rightarrow> Inl e
           | Inr d2 \<Rightarrow> seed_team d2))"


section \<open>The API handlers\<close>

text \<open>
  A handler that writes returns what it does with the request and the store after it.
  Every handler makes one store call: its arguments are bound first, and \<open>fault\<close> is the
  failure of the statement's run, if any.
\<close>

subsection \<open>Login\<close>

definition public_user :: "user_row \<Rightarrow> json" where
  "public_user user =
     Obj [(''id'', Val (JNum (u_id user))), (''name'', Val (js_of (u_name user))),
          (''username'', Val (js_of (u_username user))), (''role'', Val (js_of (u_role user)))]"

text \<open>\<^verbatim>\<open>app.post('/api/login')\<close>: no try/catch around the store call.\<close>

definition login :: "js_error option \<Rightarrow> db \<Rightarrow> js_body \<Rightarrow> outcome" where
  "login fault d b =
     (let username = b ''username''; password = b ''password'' in
      case with_params 2 [username, password]
             (\<lambda>vs. select_user_login fault d (vs ! 0) (vs ! 1)) of
        Inl e \<Rightarrow> Throws e
      | Inr (Some user) \<Rightarrow>
          Responds 200 (Obj [(''success'', Val (JBool True)), (''user'', public_user user)])
      | Inr None \<Rightarrow> Responds 401 (failure ''Invalid credentials''))"

text \<open>The keys of a JSON object, in order.\<close>

fun keys :: "json \<Rightarrow> string list" where
  "keys (Obj kvs) = map fst kvs"
| "keys _ = []"

subsection \<open>Users\<close>

text \<open>\<^verbatim>\<open>app.get('/api/users')\<close>: \<^verbatim>\<open>SELECT id, username, name, role FROM users\<close>.\<close>

definition get_users :: "js_error option \<Rightarrow> db \<Rightarrow> outcome" where
  "get_users fault d =
     (case fault of
        Some e \<Rightarrow> Throws e
      | None \<Rightarrow>
          Responds 200 (Arr (map (\<lambda>u.
            Obj [(''id'', Val (JNum (u_id u))), (''username'', Val (js_of (u_username u))),
                 (''name'', Val (js_of (u_name u))), (''role'', Val (js_of (u_role u)))])
            (users d))))"

text \<open>\<^verbatim>\<open>app.post('/api/users')\<close>\<close>

definition post_users :: "js_error option \<Rightarrow> db \<Rightarrow> js_body \<Rightarrow> outcome \<times> db" where
  "post_users fault d b =
     (let username = b ''username''; password = b ''password''; name = b ''name'';
          role = b ''role''
      in case with_params 4 [username, password, name, js_or role (JStr ''editor'')]
                (\<lambda>vs. insert_user fault d (vs ! 0) (vs ! 1) (vs ! 2) (vs ! 3)) of
           Inr (lastInsertRowid, d') \<Rightarrow>
             (Responds 200
                (Obj [(''id'', Val (JNum lastInsertRowid)), (''username'', Val username),
                      (''name'', Val name), (''role'', Val (js_or role (JStr ''editor'')))]),
              d')
         | Inl error \<Rightarrow>
             if err_code error = Some ''SQLITE_CONSTRAINT_UNIQUE''
             then (Responds 400 (failure ''Username already exists''), d)
             else (Responds 500 (failure ''Failed to create user''), d))"

text \<open>\<^verbatim>\<open>app.put('/api/users/:id')\<close>\<close>

definition put_users :: "js_error option \<Rightarrow> db \<Rightarrow> row_key \<Rightarrow> js_body \<Rightarrow> outcome \<times> db" where
  "put_users fault d rid b =
     (let username = b ''username''; password = b ''password''; name = b ''name'';
          role = b ''role''
      in case (if truthy password
               then with_params 5 [username, password, name, role, id_argument]
                      (\<lambda>vs. update_user_with_password fault d (vs ! 0) (vs ! 1) (vs ! 2)
                               (vs ! 3) rid)
               else with_params 4 [username, name, role, id_argument]
                      (\<lambda>vs. update_user_keep_password fault d (vs ! 0) (vs ! 1) (vs ! 2)
                               rid)) of
           Inr d' \<Rightarrow> (Responds 200 success, d')
         | Inl error \<Rightarrow>
             if err_code error = Some ''SQLITE_CONSTRAINT_UNIQUE''
             then (Responds 400 (failure ''Username already exists''), d)
             else (Responds 500 (failure ''Failed to update user''), d))"

text \<open>\<^verbatim>\<open>app.delete('/api/users/:id')\<close>\<close>

definition delete_users :: "js_error option \<Rightarrow> db \<Rightarrow> row_key \<Rightarrow> outcome \<times> db" where
  "delete_users fault d rid =
     (case with_params 1 [id_argument] (\<lambda>vs. delete_user fault d rid) of
        Inr d' \<Rightarrow> (Responds 200 success, d')
      | Inl error \<Rightarrow> (Responds 500 (failure ''Failed to delete user''), d))"

subsection \<open>Services\<close>

definition service_json :: "service_row \<Rightarrow> json" where
  "service_json r =
     Obj [(''id'', Val (JNum (s_id r))), (''title'', Val (js_of (s_title r))),
          (''description'', Val (js_of (s_description r))), (''icon'', Val (js_of (s_icon r))),
          (''file_url'', Val (js_of (s_file_url r)))]"

text \<open>\<^verbatim>\<open>app.get('/api/services')\<close>: \<^verbatim>\<open>SELECT * FROM services\<close>.\<close>

definition get_services :: "js_error option \<Rightarrow> db \<Rightarrow> outcome" where
  "get_services fault d =
     (case fault of
        Some e \<Rightarrow> Throws e
      | None \<Rightarrow> Responds 200 (Arr (map service_json (services d))))"

text \<open>\<^verbatim>\<open>app.post('/api/services')\<close>: no try/catch.\<close>

definition post_services :: "js_error option \<Rightarrow> db \<Rightarrow> js_body \<Rightarrow> outcome \<times> db" where
  "post_services fault d b =
     (let title = b ''title''; description = b ''description''; icon = b ''icon'';
          file_url = b ''file_url''
      in case with_params 4 [title, description, icon, file_url]
                (\<lambda>vs. insert_service fault d (vs ! 0) (vs ! 1) (vs ! 2) (vs ! 3)) of
           Inl e \<Rightarrow> (Throws e, d)
         | Inr (lastInsertRowid, d') \<Rightarrow>
             (Responds 200
                (Obj [(''id'', Val (JNum lastInsertRowid)), (''title'', Val title),
                      (''description'', Val description), (''icon'', Val icon),
                      (''file_url'', Val file_url)]),
              d'))"

text \<open>\<^verbatim>\<open>app.put('/api/services/:id')\<close>: no try/catch.\<close>

definition put_services :: "js_error option \<Rightarrow> db \<Rightarrow> row_key \<Rightarrow> js_body \<Rightarrow> outcome \<times> db" where
  "put_services fault d rid b =
     (let title = b ''title''; description = b ''description''; icon = b ''icon'';
          file_url = b ''file_url''
      in case with_params 5 [title, description, icon, file_url, id_argument]
                (\<lambda>vs. update_service fault d (vs ! 0) (vs ! 1) (vs ! 2) (vs ! 3) rid) of
           Inl e \<Rightarrow> (Throws e, d)
         | Inr d' \<Rightarrow> (Responds 200 success, d'))"

text \<open>\<^verbatim>\<open>app.delete('/api/services/:id')\<close>: no try/catch.\<close>

definition delete_services :: "js_error option \<Rightarrow> db \<Rightarrow> row_key \<Rightarrow> outcome \<times> db" where
  "delete_services fault d rid =
     (case with_params 1 [id_argument] (\<lambda>vs. delete_service fault d rid) of
        Inl e \<Rightarrow> (Throws e, d)
      | Inr d' \<Rightarrow> (Responds 200 success, d'))"

subsection \<open>Team\<close>

definition team_json :: "team_row \<Rightarrow> json" where
  "team_json r =
     Obj [(''id'', Val (JNum (t_id r))), (''name'', Val (js_of (t_name r))),
          (''title'', Val (js_of (t_title r))), (''image'', Val (js_of (t_image r))),
          (''icon'', Val (js_of (t_icon r)))]"

text \<open>\<^verbatim>\<open>app.get('/api/team')\<close>: \<^verbatim>\<open>SELECT * FROM team\<close>.\<close>

definition get_team :: "js_error option \<Rightarrow> db \<Rightarrow> outcome" where
  "get_team fault d =
     (case fault of
        Some e \<Rightarrow> Throws e
      | None \<Rightarrow> Responds 200 (Arr (map team_json (team d))))"

text \<open>\<^verbatim>\<open>app.post('/api/team')\<close>: no try/catch.\<close>

definition post_team :: "js_error option \<Rightarrow> db \<Rightarrow> js_body \<Rightarrow> outcome \<times> db" where
  "post_team fault d b =
     (let name = b ''name''; title = b ''title''; image = b ''image''; icon = b ''icon''
      in case with_params 4 [name, title, image, icon]
                (\<lambda>vs. insert_team fault d (vs ! 0) (vs ! 1) (vs ! 2) (vs ! 3)) of
           Inl e \<Rightarrow> (Throws e, d)
         | Inr (lastInsertRowid, d') \<Rightarrow>
             (Responds 200
                (Obj [(''id'', Val (JNum lastInsertRowid)), (''name'', Val name),
                      (''title'', Val title), (''image'', Val image), (''icon'', Val icon)]),
              d'))"

text \<open>\<^verbatim>\<open>app.put('/api/team/:id')\<close>: no try/catch.\<close>

definition put_team :: "js_error option \<Rightarrow> db \<Rightarrow> row_key \<Rightarrow> js_body \<Rightarrow> outcome \<times> db" where
  "put_team fault d rid b =
     (let name = b ''name''; title = b ''title''; image = b ''image''; icon = b ''icon''
      in case with_params 5 [name, title, image, icon, id_argument]
                (\<lambda>vs. update_team fault d (vs ! 0) (vs ! 1) (vs ! 2) (vs ! 3) rid) of
           Inl e \<Rightarrow> (Throws e, d)
         | Inr d' \<Rightarrow> (Responds 200 success, d'))"

text \<open>\<^verbatim>\<open>app.delete('/api/team/:id')\<close>: no try/catch.\<close>

definition delete_team_member :: "js_error option \<Rightarrow> db \<Rightarrow> row_key \<Rightarrow> outcome \<times> db" where
  "delete_team_member fault d rid =
     (case with_params 1 [id_argument] (\<lambda>vs. delete_team fault d rid) of
        Inl e \<Rightarrow> (Throws e, d)
      | Inr d' \<Rightarrow> (Responds 200 success, d'))"

subsection \<open>The framework around a handler\<close>

text \<open>
  The body of an HTTP response: the JSON a handler sent, or the HTML page of Express's
  default error handler, which shows the status text when \<^verbatim>\<open>NODE_ENV\<close> is
  \<^verbatim>\<open>production\<close> and the stack of the exception otherwise.
\<close>

datatype http_body = Json_body json | Status_page string | Stack_page js_error

text \<open>
  Express calls these handlers synchronously and catches what they throw. \<^verbatim>\<open>server.ts\<close>
  registers no error middleware, so the exception goes to the default error handler:
  status 500 (the exceptions of the store carry no status of their own) and the page
  above. \<open>production\<close> is \<^verbatim>\<open>process.env.NODE_ENV === 'production'\<close>.
\<close>

definition express :: "bool \<Rightarrow> outcome \<Rightarrow> nat \<times> http_body" where
  "express production out =
     (case out of
        Responds status body \<Rightarrow> (status, Json_body body)
      | Throws e \<Rightarrow>
          (500, if production then Status_page ''Internal Server Error'' else Stack_page e))"


section \<open>Upload\<close>

text \<open>
  The \<^verbatim>\<open>filename\<close> function of the disk storage. \<open>now\<close> is \<^verbatim>\<open>Date.now()\<close>, \<open>rnd\<close> is
  \<^verbatim>\<open>Math.round(Math.random() * 1E9)\<close> and \<open>extname\<close> is \<^verbatim>\<open>path.extname\<close>.
\<close>

definition storage_filename :: "(string \<Rightarrow> string) \<Rightarrow> nat \<Rightarrow> nat \<Rightarrow> string \<Rightarrow> string" where
  "storage_filename extname now rnd originalname =
     (let uniqueSuffix = show_nat now @ ''-'' @ show_nat rnd
      in uniqueSuffix @ extname originalname)"

text \<open>
  A part of a multipart body: a text field (name, value) or a file (field name,
  original file name). A file part without a file name is skipped by multer and is
  no part here.
\<close>

datatype part = Field_part string string | File_part string string

text \<open>
  The request as \<^verbatim>\<open>upload.single('image')\<close> meets it: not a multipart request, a
  multipart body that cannot be parsed, or the parts of the body in order.
\<close>

datatype upload_request = Not_multipart | Malformed js_error | Multipart "part list"

definition unexpected_field :: js_error where
  "unexpected_field = JsError (Some ''LIMIT_UNEXPECTED_FILE'') ''Unexpected field''"

text \<open>
  multer over the parts, in order: text fields go to \<^verbatim>\<open>req.body\<close>; a file under another
  field than \<^verbatim>\<open>image\<close>, or a second file under \<^verbatim>\<open>image\<close>, is an error; the first file
  under \<^verbatim>\<open>image\<close> is stored under the name the \<^verbatim>\<open>filename\<close> function gives, which
  becomes \<^verbatim>\<open>req.file.filename\<close>, unless writing fails (\<open>write_fault\<close>). \<open>file\<close> is the file
  stored so far. The result is the \<^verbatim>\<open>err\<close> of the callback and \<^verbatim>\<open>req.file.filename\<close>.
  multer reports the first error it meets; a failed write is taken to be met before
  the parts that follow the file.
\<close>

fun multer_parts ::
  "(string \<Rightarrow> string) \<Rightarrow> nat \<Rightarrow> nat \<Rightarrow> js_error option \<Rightarrow> string option \<Rightarrow> part list
     \<Rightarrow> js_error option \<times> string option" where
  "multer_parts extname now rnd write_fault file [] = (None, file)"
| "multer_parts extname now rnd write_fault file (Field_part n v # ps) =
     multer_parts extname now rnd write_fault file ps"
| "multer_parts extname now rnd write_fault file (File_part n originalname # ps) =
     (if n \<noteq> ''image'' \<or> file \<noteq> None then (Some unexpected_field, None)
      else (case write_fault of
              Some e \<Rightarrow> (Some e, None)
            | None \<Rightarrow>
                multer_parts extname now rnd write_fault
                  (Some (storage_filename extname now rnd originalname)) ps))"

text \<open>\<^verbatim>\<open>upload.single('image')\<close>: a request that is not multipart passes untouched.\<close>

definition upload_single ::
  "(string \<Rightarrow> string) \<Rightarrow> nat \<Rightarrow> nat \<Rightarrow> js_error option \<Rightarrow> upload_request
     \<Rightarrow> js_error option \<times> string option" where
  "upload_single extname now rnd write_fault r =
     (case r of
        Not_multipart \<Rightarrow> (None, None)
      | Malformed e \<Rightarrow> (Some e, None)
      | Multipart ps \<Rightarrow> multer_parts extname now rnd write_fault None ps)"

text \<open>The callback of \<^verbatim>\<open>app.post('/api/upload')\<close>.\<close>

definition upload_callback :: "js_error option \<Rightarrow> string option \<Rightarrow> outcome" where
  "upload_callback err file =
     (case err of
        Some e \<Rightarrow> Responds 500 (failure (err_message e))
      | None \<Rightarrow>
          (case file of
             None \<Rightarrow> Responds 400 (failure ''No file uploaded'')
           | Some filename \<Rightarrow>
               (let imageUrl = ''/uploads/'' @ filename
                in Responds 200 (Obj [(''success'', Val (JBool True)),
                                      (''imageUrl'', Val (JStr imageUrl))]))))"

definition post_upload ::
  "(string \<Rightarrow> string) \<Rightarrow> nat \<Rightarrow> nat \<Rightarrow> js_error option \<Rightarrow> upload_request \<Rightarrow> outcome" where
  "post_upload extname now rnd write_fault r =
     (case upload_single extname now rnd write_fault r of
        (err, file) \<Rightarrow> upload_callback err file)"

text \<open>The files of a body: field name and original name, in order.\<close>

fun files_of :: "part list \<Rightarrow> (string \<times> string) list" where
  "files_of [] = []"
| "files_of (Field_part n v # ps) = files_of ps"
| "files_of (File_part n originalname # ps) = (n, originalname) # files_of ps"


section \<open>Example states and requests\<close>

text \<open>A request body given by its fields; a field not listed is absent.\<close>

definition body_of :: "(string \<times> jsval) list \<Rightarrow> js_body" where
  "body_of kvs k = (case map_of kvs k of Some v \<Rightarrow> v | None \<Rightarrow> JUndefined)"

definition admin_row :: user_row where
  "admin_row = \<lparr>u_id = 1, u_username = SText ''admin'', u_password = SText ''123456'',
                 u_name = SText ''Administrator'', u_role = SText ''admin''\<rparr>"

definition bob_row :: user_row where
  "bob_row = \<lparr>u_id = 2, u_username = SText ''bob'', u_password = SText ''secret'',
               u_name = SText ''Bob'', u_role = SText ''editor''\<rparr>"

definition example_db :: db where
  "example_db =
     \<lparr>users = [admin_row, bob_row], users_seq = 2,
      services = [\<lparr>s_id = 1, s_title = SText ''Tax'', s_description = SText ''Tax advice'',
                   s_icon = SText ''Scale'', s_file_url = SNull\<rparr>],
      services_seq = 1,
      team = [\<lparr>t_id = 1, t_name = SText ''Ann'', t_title = SText ''Partner'',
               t_image = SText ''/uploads/1-2.png'', t_icon = SNull\<rparr>],
      team_seq = 1\<rparr>"

definition empty_db :: db where
  "empty_db = \<lparr>users = [], users_seq = 0, services = [], services_seq = 0, team = [],
                team_seq = 0\<rparr>"

text \<open>A failure of the store that is no constraint violation.\<close>

definition disk_full :: js_error where
  "disk_full = JsError (Some ''SQLITE_FULL'') ''database or disk is full''"

text \<open>The users table of a release that had no \<^verbatim>\<open>role\<close> column yet, alone in a data file.\<close>

definition legacy_users_columns :: "column list" where
  "legacy_users_columns =
     [id_column,
      \<lparr>col_name = ''username'', col_type = ''TEXT'', col_constraint = ''UNIQUE'',
       col_default = None, col_hidden = False\<rparr>,
      plain_column ''password'' ''TEXT'',
      plain_column ''name'' ''TEXT'']"

definition legacy_schema :: schema where
  "legacy_schema = Map.empty(''users'' \<mapsto> Table legacy_users_columns)"


section \<open>Facts about binding\<close>


lemma bind_value_plain: "plain v \<Longrightarrow> bind_value v = Inr (sql_of v)"
  by (cases v) simp_all

lemma bind_args_plain:
  "\<forall>v\<in>set args. plain v \<Longrightarrow> length args = n \<Longrightarrow> bind_args n seen args = Inr (map sql_of args)"
proof (induction args arbitrary: n)
  case Nil
  then show ?case by simp
next
  case (Cons v args)
  then obtain m where n: "n = Suc m" and l: "length args = m"
    by (cases n) auto
  from Cons.prems have p: "plain v" and ps: "\<forall>x\<in>set args. plain x"
    by simp_all
  from Cons.IH [OF ps l] have ih: "bind_args m seen args = Inr (map sql_of args)" .
  from p show ?case
    by (cases v) (simp_all add: n ih)
qed

lemma with_params_plain:
  "\<forall>v\<in>set args. plain v \<Longrightarrow> length args = n \<Longrightarrow> with_params n args exec = exec (map sql_of args)"
  by (simp add: with_params_def bind_args_plain)

lemma bind_args_length: "bind_args n seen args = Inr vs \<Longrightarrow> length vs = n"
proof (induction n seen args arbitrary: vs rule: bind_args.induct)
  case (1 n seen)
  then show ?case by (simp split: if_splits)
next
  case (2 n seen args)
  then show ?case by simp
next
  case (3 n seen x xs args)
  then show ?case
    by (cases n) (auto split: sum.splits if_splits)
next
  case (4 n seen kvs args)
  then show ?case by (simp split: if_splits)
qed (cases n; auto split: sum.splits if_splits)+

lemma plain_id_argument [simp]: "plain id_argument"
  by (simp add: id_argument_def)

lemma textual_plain: "textual v \<Longrightarrow> plain v"
  by (cases v) simp_all

lemma bind_args_scalar:
  "\<forall>v\<in>set args. scalar v \<Longrightarrow> bind_args n seen args = Inr vs \<Longrightarrow> vs = map sql_of args"
proof (induction args arbitrary: n vs)
  case Nil
  then show ?case by (simp split: if_splits)
next
  case (Cons v args)
  from Cons.prems(1) have ps: "\<forall>x\<in>set args. scalar x" and p: "scalar v"
    by simp_all
  from p Cons.prems(2) Cons.IH [OF ps] show ?case
    by (cases v; cases n) (auto simp: bind_type_error_def split: sum.splits if_splits)
qed

lemma bind_args_no_code:
  "bind_args n seen args = Inl e \<Longrightarrow> err_code e = None"
proof (induction n seen args rule: bind_args.induct)
  case (1 n seen)
  then show ?case by (auto simp: too_few_values_def split: if_splits)
next
  case (2 n seen args)
  then show ?case by simp
next
  case (3 n seen x xs args)
  then show ?case
    by (cases x)
       (auto simp: bind_type_error_def too_many_values_def split: sum.splits if_splits)
next
  case (4 n seen kvs args)
  then show ?case by (auto simp: two_objects_def split: if_splits)
qed (auto simp: bind_type_error_def too_many_values_def split: sum.splits if_splits)

lemma with_params_cases:
  "(\<exists>e. err_code e = None \<and> with_params n args exec = Inl e) \<or>
   (\<exists>vs. with_params n args exec = exec vs)"
proof (cases "bind_args n False args")
  case (Inl e)
  then show ?thesis
    using bind_args_no_code [OF Inl] by (auto simp: with_params_def)
next
  case (Inr vs)
  then show ?thesis
    by (auto simp: with_params_def)
qed

lemma number_text_not_empty: "number_text n \<noteq> []"
  by (simp add: number_text_def)

lemma truthy_not_empty: "truthy v \<Longrightarrow> sql_of v \<noteq> SText []"
  by (cases v) (auto simp: number_text_not_empty)


section \<open>Facts about the store\<close>

lemma users_wf_same_username:
  assumes "users_wf rows" "u \<in> set rows" "v \<in> set rows"
    and "u_username u \<noteq> SNull" "u_username u = u_username v"
  shows "u = v"
proof -
  from assms have "u_id u = u_id v"
    unfolding users_wf_def by blast
  moreover from assms(1) have "inj_on u_id (set rows)"
    by (simp add: users_wf_def distinct_map)
  ultimately show ?thesis
    using assms(2,3) by (auto dest: inj_onD)
qed

lemma find_login_unique:
  assumes "users_wf rows" "u \<in> set rows"
    and "u_username u = SText un" "u_password u = SText pw"
  shows "find (\<lambda>r. sql_eq (u_username r) (SText un) \<and> sql_eq (u_password r) (SText pw)) rows
           = Some u"
proof (cases "find (\<lambda>r. sql_eq (u_username r) (SText un) \<and> sql_eq (u_password r) (SText pw)) rows")
  case None
  with assms show ?thesis
    by (auto simp: find_None_iff sql_eq_def)
next
  case (Some v)
  then have "v \<in> set rows" and "u_username v = SText un"
    by (auto simp: find_Some_iff sql_eq_def in_set_conv_nth)
  with assms have "u = v"
    by (intro users_wf_same_username[of rows u v]) simp_all
  with Some show ?thesis by simp
qed


lemma users_wf_update:
  assumes wf: "users_wf rows"
    and free: "\<not> list_ex (\<lambda>r. u_id r \<noteq> k \<and> sql_eq (u_username r) un) rows"
    and f: "\<And>r. u_id r = k \<Longrightarrow> u_id (f r) = k \<and> u_username (f r) = un"
  shows "users_wf (map (\<lambda>r. if u_id r = k then f r else r) rows)"
proof -
  have ids: "map u_id (map (\<lambda>r. if u_id r = k then f r else r) rows) = map u_id rows"
    using f by (induction rows) auto
  let ?g = "\<lambda>r. if u_id r = k then f r else r"
  have uniq: "u_id (?g x) = u_id (?g y)"
    if x: "x \<in> set rows" and y: "y \<in> set rows"
      and n: "u_username (?g x) \<noteq> SNull" and e: "u_username (?g x) = u_username (?g y)"
    for x y
  proof (cases "u_id x = k"; cases "u_id y = k")
    assume "u_id x = k" "u_id y = k"
    with f show ?thesis by simp
  next
    assume a: "u_id x = k" "u_id y \<noteq> k"
    with f n e have "sql_eq (u_username y) un" by (auto simp: sql_eq_def)
    with a y free show ?thesis by (auto simp: list_ex_iff)
  next
    assume a: "u_id x \<noteq> k" "u_id y = k"
    with f n e have "sql_eq (u_username x) un" by (auto simp: sql_eq_def)
    with a x free show ?thesis by (auto simp: list_ex_iff)
  next
    assume a: "u_id x \<noteq> k" "u_id y \<noteq> k"
    with n e have "u_username x \<noteq> SNull" "u_username x = u_username y" by auto
    with wf x y have "u_id x = u_id y" unfolding users_wf_def by blast
    with a show ?thesis by simp
  qed
  show ?thesis
    unfolding users_wf_def
  proof (intro conjI ballI impI)
    from wf ids show "distinct (map u_id (map ?g rows))"
      by (simp add: users_wf_def del: map_map)
  next
    fix a b
    assume "a \<in> set (map ?g rows)" and "b \<in> set (map ?g rows)"
      and h: "u_username a \<noteq> SNull \<and> u_username a = u_username b"
    then obtain x y where x: "x \<in> set rows" and y: "y \<in> set rows"
      and a: "a = ?g x" and b: "b = ?g y"
      by auto
    from h have "u_username (?g x) \<noteq> SNull" and "u_username (?g x) = u_username (?g y)"
      unfolding a b by blast+
    from uniq [OF x y this] show "u_id a = u_id b"
      unfolding a b .
  qed
qed

lemma users_wf_map_only:
  assumes "users_wf rows" "u \<in> set rows"
  shows "map (\<lambda>r. if u_id r = u_id u then f r else r) rows
       = map (\<lambda>r. if u_id r = u_id u then f u else r) rows"
proof (rule map_cong)
  fix r assume "r \<in> set rows"
  moreover from assms(1) have "inj_on u_id (set rows)"
    by (simp add: users_wf_def distinct_map)
  ultimately have "u_id r = u_id u \<Longrightarrow> r = u"
    using assms(2) by (auto dest: inj_onD)
  then show "(if u_id r = u_id u then f r else r) = (if u_id r = u_id u then f u else r)"
    by auto
qed simp

lemma update_keep_password:
  "update_user_keep_password fault d un nm rl rid = Inr d'
     \<Longrightarrow> map u_password (users d') = map u_password (users d)"
  by (cases fault; cases rid)
     (auto simp: update_user_keep_password_def update_users_where_id_def split: if_splits)

lemma update_with_password_rows:
  "update_user_with_password fault d un pw nm rl rid = Inr d'
     \<Longrightarrow> users d' = map (\<lambda>r. if Some (u_id r) = rid
                               then r\<lparr>u_username := un, u_password := pw, u_name := nm,
                                      u_role := rl\<rparr>
                               else r) (users d)"
  by (cases fault; cases rid)
     (auto simp: update_user_with_password_def update_users_where_id_def split: if_splits)


section \<open>Login\<close>

text \<open>
  C1, as the code has it. On a users table that satisfies its key constraints, with the
  store call running: a login request whose username and password are strings equal to
  the stored username and password of a user is answered with status 200 and that
  user's id, name, username and role, and nothing else; a request whose username and
  password are each a string, \<^verbatim>\<open>null\<close> or absent, and are the stored username and password
  of no user, is answered with status 401 and the message \<^verbatim>\<open>Invalid credentials\<close>.
\<close>

theorem login_text_credentials:
  assumes "users_wf (users d)"
  shows "(u \<in> set (users d) \<and> u_username u = SText un \<and> u_password u = SText pw \<and>
          b ''username'' = JStr un \<and> b ''password'' = JStr pw
          \<longrightarrow> login None d b =
                Responds 200 (Obj [(''success'', Val (JBool True)),
                  (''user'', Obj [(''id'', Val (JNum (u_id u))), (''name'', Val (js_of (u_name u))),
                                  (''username'', Val (JStr un)), (''role'', Val (js_of (u_role u)))])]))
       \<and> (textual (b ''username'') \<and> textual (b ''password'') \<and>
           (\<forall>v\<in>set (users d).
              \<not> (u_username v = sql_of (b ''username'') \<and> u_password v = sql_of (b ''password'')))
          \<longrightarrow> login None d b =
                Responds 401 (Obj [(''success'', Val (JBool False)),
                                   (''message'', Val (JStr ''Invalid credentials''))]))"
proof (intro conjI impI)
  assume h: "u \<in> set (users d) \<and> u_username u = SText un \<and> u_password u = SText pw \<and>
          b ''username'' = JStr un \<and> b ''password'' = JStr pw"
  with assms have "find (\<lambda>r. sql_eq (u_username r) (SText un) \<and> sql_eq (u_password r) (SText pw))
      (users d) = Some u"
    by (intro find_login_unique) simp_all
  with h show "login None d b =
                Responds 200 (Obj [(''success'', Val (JBool True)),
                  (''user'', Obj [(''id'', Val (JNum (u_id u))), (''name'', Val (js_of (u_name u))),
                                  (''username'', Val (JStr un)), (''role'', Val (js_of (u_role u)))])])"
    by (simp add: login_def with_params_plain select_user_login_def public_user_def)
next
  assume h: "textual (b ''username'') \<and> textual (b ''password'') \<and>
           (\<forall>v\<in>set (users d).
              \<not> (u_username v = sql_of (b ''username'') \<and> u_password v = sql_of (b ''password'')))"
  then have "find (\<lambda>u. sql_eq (u_username u) (sql_of (b ''username'')) \<and>
                        sql_eq (u_password u) (sql_of (b ''password''))) (users d) = None"
    by (auto simp: find_None_iff sql_eq_def)
  with h show "login None d b =
                Responds 401 (Obj [(''success'', Val (JBool False)),
                                   (''message'', Val (JStr ''Invalid credentials''))])"
    by (simp add: login_def with_params_plain textual_plain select_user_login_def failure_def)
qed

theorem login_text_credentials_witness:
  "login None example_db (body_of [(''username'', JStr ''bob''), (''password'', JStr ''secret'')])
     = Responds 200 (Obj [(''success'', Val (JBool True)),
         (''user'', Obj [(''id'', Val (JNum 2)), (''name'', Val (JStr ''Bob'')),
                         (''username'', Val (JStr ''bob'')), (''role'', Val (JStr ''editor''))])]) \<and>
   login None example_db (body_of [(''username'', JStr ''bob''), (''password'', JStr ''123456'')])
     = Responds 401 (Obj [(''success'', Val (JBool False)),
                          (''message'', Val (JStr ''Invalid credentials''))]) \<and>
   login None example_db (body_of [(''username'', JStr ''bob'')])
     = Responds 401 (Obj [(''success'', Val (JBool False)),
                          (''message'', Val (JStr ''Invalid credentials''))])"
proof -
  have wf: "users_wf (users example_db)"
    by (simp add: users_wf_def example_db_def admin_row_def bob_row_def)
  have ok: "login None example_db
              (body_of [(''username'', JStr ''bob''), (''password'', JStr ''secret'')])
     = Responds 200 (Obj [(''success'', Val (JBool True)),
         (''user'', Obj [(''id'', Val (JNum 2)), (''name'', Val (JStr ''Bob'')),
                         (''username'', Val (JStr ''bob'')), (''role'', Val (JStr ''editor''))])])"
    using login_text_credentials [OF wf, of bob_row "''bob''" "''secret''"
        "body_of [(''username'', JStr ''bob''), (''password'', JStr ''secret'')]"]
    by (simp add: example_db_def bob_row_def body_of_def)
  have no: "login None example_db
              (body_of [(''username'', JStr ''bob''), (''password'', JStr ''123456'')])
     = Responds 401 (Obj [(''success'', Val (JBool False)),
                          (''message'', Val (JStr ''Invalid credentials''))])"
    using login_text_credentials [OF wf, of bob_row "''bob''" "''secret''"
        "body_of [(''username'', JStr ''bob''), (''password'', JStr ''123456'')]"]
    by (simp add: example_db_def admin_row_def bob_row_def body_of_def)
  have ab: "login None example_db (body_of [(''username'', JStr ''bob'')])
     = Responds 401 (Obj [(''success'', Val (JBool False)),
                          (''message'', Val (JStr ''Invalid credentials''))])"
    using login_text_credentials [OF wf, of bob_row "''bob''" "''secret''"
        "body_of [(''username'', JStr ''bob'')]"]
    by (simp add: example_db_def admin_row_def bob_row_def body_of_def)
  from ok no ab show ?thesis by (simp only:)
qed

text \<open>
  The claim as stated, for every request, fails on credentials that are no strings. A
  password \<^verbatim>\<open>true\<close> matches no stored user, and the driver refuses to bind it: the handler
  has no try/catch, the exception leaves it, and the answer is status 500, not 401. A
  username that is the array of \<open>bob\<close> and \<open>secret\<close>, with the empty array as password,
  equals no stored pair either, and
  the driver spreads the arrays over the two parameters: the answer is status 200, as
  bob.
\<close>

theorem login_claim_counterexample:
  "login None example_db (body_of [(''username'', JStr ''bob''), (''password'', JBool True)])
     = Throws bind_type_error \<and>
   express True (login None example_db
       (body_of [(''username'', JStr ''bob''), (''password'', JBool True)]))
     = (500, Status_page ''Internal Server Error'') \<and>
   login None example_db
       (body_of [(''username'', JArr [JStr ''bob'', JStr ''secret'']), (''password'', JArr [])])
     = Responds 200 (Obj [(''success'', Val (JBool True)),
         (''user'', Obj [(''id'', Val (JNum 2)), (''name'', Val (JStr ''Bob'')),
                         (''username'', Val (JStr ''bob'')), (''role'', Val (JStr ''editor''))])])"
  by (simp add: login_def with_params_def select_user_login_def public_user_def express_def
      example_db_def admin_row_def bob_row_def body_of_def sql_eq_def)


section \<open>Seeding the administrator\<close>

lemma users_wf_at_most_one:
  assumes "users_wf rows"
  shows "length (filter (\<lambda>r. u_username r = SText n) rows) \<le> 1"
  using assms
proof (induction rows)
  case Nil
  then show ?case by simp
next
  case (Cons a rows)
  from Cons.prems have wf: "users_wf rows"
    by (auto simp: users_wf_def)
  show ?case
  proof (cases "u_username a = SText n")
    case False
    with Cons.IH [OF wf] show ?thesis by simp
  next
    case True
    have "filter (\<lambda>r. u_username r = SText n) rows = []"
    proof (rule ccontr)
      assume "filter (\<lambda>r. u_username r = SText n) rows \<noteq> []"
      then obtain r where r: "r \<in> set rows" "u_username r = SText n"
        by (auto simp: filter_empty_conv)
      with True Cons.prems have "u_id a = u_id r"
        unfolding users_wf_def by (metis list.set_intros(1,2) sqlval.distinct(1))
      with r Cons.prems show False
        by (auto simp: users_wf_def)
    qed
    with True show ?thesis by simp
  qed
qed

text \<open>
  C2. On a users table that satisfies its key constraints, the administrator step of
  the Seed Loader returns, and afterwards exactly one row has username \<open>admin\<close> and its
  role is \<open>admin\<close>. When no such row existed, the row \<open>admin\<close>, \<open>123456\<close>,
  \<open>Administrator\<close>, \<open>admin\<close> is appended under a new key; when it existed, only its role
  is set to \<open>admin\<close>.
\<close>

theorem seed_admin_establishes_admin:
  assumes wf: "users_wf (users d)"
  shows "\<exists>d'. seed_admin d = Inr d' \<and>
           length (filter (\<lambda>r. u_username r = SText ''admin'') (users d')) = 1 \<and>
           (\<forall>r\<in>set (users d'). u_username r = SText ''admin'' \<longrightarrow> u_role r = SText ''admin'') \<and>
           (if list_ex (\<lambda>r. u_username r = SText ''admin'') (users d)
            then users d' = map (\<lambda>r. if u_username r = SText ''admin''
                                       then r\<lparr>u_role := SText ''admin''\<rparr> else r) (users d)
            else users d' = users d @
                   [\<lparr>u_id = new_rowid (users_seq d) (map u_id (users d)),
                     u_username = SText ''admin'', u_password = SText ''123456'',
                     u_name = SText ''Administrator'', u_role = SText ''admin''\<rparr>])"
proof (cases "list_ex (\<lambda>r. u_username r = SText ''admin'') (users d)")
  case False
  then have none: "find (\<lambda>u. sql_eq (u_username u) (SText ''admin'')) (users d) = None"
    and nex: "\<not> list_ex (\<lambda>u. sql_eq (u_username u) (SText ''admin'')) (users d)"
    and nf: "filter (\<lambda>r. u_username r = SText ''admin'') (users d) = []"
    by (auto simp: find_None_iff list_ex_iff sql_eq_def filter_empty_conv)
  with False show ?thesis
    by (auto simp: seed_admin_def insert_user_def Let_def list_ex_iff)
next
  case True
  then obtain a where a: "find (\<lambda>u. sql_eq (u_username u) (SText ''admin'')) (users d) = Some a"
    by (cases "find (\<lambda>u. sql_eq (u_username u) (SText ''admin'')) (users d)")
       (auto simp: find_None_iff list_ex_iff sql_eq_def)
  let ?f = "\<lambda>r. if u_username r = SText ''admin'' then r\<lparr>u_role := SText ''admin''\<rparr> else r"
  have eq: "sql_eq (u_username u) (SText ''admin'') = (u_username u = SText ''admin'')" for u :: user_row
    by (auto simp: sql_eq_def)
  have d': "seed_admin d = Inr (d\<lparr>users := map ?f (users d)\<rparr>)"
    using a by (simp add: seed_admin_def eq)
  have fl: "filter (\<lambda>r. u_username r = SText ''admin'') (map ?f (users d))
          = map ?f (filter (\<lambda>r. u_username r = SText ''admin'') (users d))"
    by (induction "users d") (auto simp: filter_map comp_def intro!: filter_cong)
  from True have "filter (\<lambda>r. u_username r = SText ''admin'') (users d) \<noteq> []"
    by (auto simp: list_ex_iff filter_empty_conv)
  with users_wf_at_most_one [OF wf, of "''admin''"]
  have one: "length (filter (\<lambda>r. u_username r = SText ''admin'') (users d)) = 1"
    by (cases "filter (\<lambda>r. u_username r = SText ''admin'') (users d)") auto
  show ?thesis
    using True d' one by (auto simp: fl)
qed

theorem seed_admin_establishes_admin_witness:
  "(\<exists>d'. seed_admin empty_db = Inr d' \<and> users d' = [admin_row]) \<and>
   (\<exists>d'. seed_admin (example_db\<lparr>users := [admin_row\<lparr>u_role := SText ''editor''\<rparr>, bob_row]\<rparr>)
            = Inr d' \<and> users d' = [admin_row, bob_row])"
proof -
  let ?demoted = "example_db\<lparr>users := [admin_row\<lparr>u_role := SText ''editor''\<rparr>, bob_row]\<rparr>"
  have wf0: "users_wf (users empty_db)"
    by (simp add: users_wf_def empty_db_def)
  have wf1: "users_wf (users ?demoted)"
    by (simp add: users_wf_def example_db_def admin_row_def bob_row_def)
  from seed_admin_establishes_admin [OF wf0]
  have 0: "\<exists>d'. seed_admin empty_db = Inr d' \<and> users d' = [admin_row]"
    by (auto simp: empty_db_def admin_row_def new_rowid_def)
  from seed_admin_establishes_admin [OF wf1]
  have 1: "\<exists>d'. seed_admin ?demoted = Inr d' \<and> users d' = [admin_row, bob_row]"
    by (auto simp: example_db_def admin_row_def bob_row_def)
  from 0 1 show ?thesis ..
qed


section \<open>Creating a user under a name that is taken\<close>

text \<open>
  C3, as the code has it. For every users table and every POST /api/users request whose
  username is a string that a stored user has, and whose password, name and role (after
  the default \<^verbatim>\<open>role || 'editor'\<close>) are each a string, a number, \<^verbatim>\<open>null\<close> or absent, the answer
  is status 400 with the message \<^verbatim>\<open>Username already exists\<close>, and the store is as before
  (store call running apart from the constraint).
\<close>

theorem post_users_duplicate_username:
  assumes "u \<in> set (users d)" and "u_username u = SText un" and "b ''username'' = JStr un"
    and "plain (b ''password'')" and "plain (b ''name'')"
    and "plain (js_or (b ''role'') (JStr ''editor''))"
  shows "post_users None d b =
           (Responds 400 (Obj [(''success'', Val (JBool False)),
                               (''message'', Val (JStr ''Username already exists''))]), d)"
proof -
  from assms have "list_ex (\<lambda>r. sql_eq (u_username r) (SText un)) (users d)"
    by (auto simp: list_ex_iff sql_eq_def intro!: bexI[of _ u])
  with assms(3-6) show ?thesis
    by (simp add: post_users_def with_params_plain insert_user_def unique_violation_def
        Let_def failure_def)
qed

theorem post_users_duplicate_username_witness:
  "post_users None example_db
     (body_of [(''username'', JStr ''bob''), (''password'', JStr ''pw''), (''name'', JNum 7)])
     = (Responds 400 (Obj [(''success'', Val (JBool False)),
                           (''message'', Val (JStr ''Username already exists''))]), example_db) \<and>
   length (users (snd (post_users None example_db
     (body_of [(''username'', JStr ''bob''), (''password'', JStr ''pw''), (''name'', JNum 7)]))))
     = length (users example_db)"
  using post_users_duplicate_username [of bob_row example_db "''bob''"
      "body_of [(''username'', JStr ''bob''), (''password'', JStr ''pw''), (''name'', JNum 7)]"]
  by (simp add: example_db_def bob_row_def body_of_def js_or_def)

text \<open>
  The claim as stated, for every request, fails when a field is a boolean: the driver
  refuses to bind it before the INSERT runs, the exception has no code, and the handler
  answers status 500 with \<^verbatim>\<open>Failed to create user\<close>, whatever the username.
\<close>

theorem post_users_claim_counterexample:
  "post_users None example_db
     (body_of [(''username'', JStr ''bob''), (''password'', JBool True), (''name'', JStr ''B'')])
     = (Responds 500 (Obj [(''success'', Val (JBool False)),
                           (''message'', Val (JStr ''Failed to create user''))]), example_db)"
  by (simp add: post_users_def with_params_def bind_type_error_def failure_def body_of_def
      js_or_def Let_def)


section \<open>Updating a user\<close>


lemma put_users_plain:
  assumes "plain (b ''username'')" "plain (b ''password'')" "plain (b ''name'')"
    "plain (b ''role'')"
  shows "put_users fault d rid b =
    (case (if truthy (b ''password'')
           then update_user_with_password fault d (sql_of (b ''username''))
                  (sql_of (b ''password'')) (sql_of (b ''name'')) (sql_of (b ''role'')) rid
           else update_user_keep_password fault d (sql_of (b ''username''))
                  (sql_of (b ''name'')) (sql_of (b ''role'')) rid) of
       Inr d' \<Rightarrow> (Responds 200 success, d')
     | Inl error \<Rightarrow>
         if err_code error = Some ''SQLITE_CONSTRAINT_UNIQUE''
         then (Responds 400 (failure ''Username already exists''), d)
         else (Responds 500 (failure ''Failed to update user''), d))"
  using assms
  by (cases "truthy (b ''password'')") (simp_all add: put_users_def with_params_plain Let_def)

text \<open>
  C4, as the code has it. Let \<open>u\<close> be a stored user and \<open>b\<close> a PUT /api/users/:id request
  addressing it whose username, password, name and role are each a string, \<^verbatim>\<open>null\<close> or
  absent, on a users table that satisfies its key constraints and with the store call
  running. When no other user has the requested username, the answer is status 200
  and the row of \<open>u\<close> gets the request's username, name and role (NULL for \<^verbatim>\<open>null\<close> or an
  absent field); its password is replaced by the request's password when that is a
  non-empty string and is kept when the password is absent, \<^verbatim>\<open>null\<close> or the empty string.
  When another user has the requested username, the answer is status 400 with the
  message \<^verbatim>\<open>Username already exists\<close> and nothing is stored. After an accepted update
  without a non-empty password, whose username is a string, of a user whose stored
  password is a text, logging in with that username and the stored password succeeds
  and shows the new name and role.
\<close>

theorem put_users_password_rule:
  assumes wf: "users_wf (users d)" and u: "u \<in> set (users d)"
    and tx: "textual (b ''username'')" "textual (b ''password'')" "textual (b ''name'')"
            "textual (b ''role'')"
  shows
   "(\<not> list_ex (\<lambda>r. u_id r \<noteq> u_id u \<and> sql_eq (u_username r) (sql_of (b ''username''))) (users d)
      \<longrightarrow> put_users None d (Some (u_id u)) b =
            (Responds 200 (Obj [(''success'', Val (JBool True))]),
             d\<lparr>users := map (\<lambda>r. if u_id r = u_id u
                  then u\<lparr>u_username := sql_of (b ''username''),
                         u_password := (if truthy (b ''password'') then sql_of (b ''password'')
                                        else u_password u),
                         u_name := sql_of (b ''name''), u_role := sql_of (b ''role'')\<rparr>
                  else r) (users d)\<rparr>))
    \<and> (list_ex (\<lambda>r. u_id r \<noteq> u_id u \<and> sql_eq (u_username r) (sql_of (b ''username''))) (users d)
      \<longrightarrow> put_users None d (Some (u_id u)) b =
            (Responds 400 (Obj [(''success'', Val (JBool False)),
                                (''message'', Val (JStr ''Username already exists''))]), d))
    \<and> (\<not> truthy (b ''password'') \<and> b ''username'' = JStr un \<and> u_password u = SText pw \<and>
        c ''username'' = JStr un \<and> c ''password'' = JStr pw \<and>
        \<not> list_ex (\<lambda>r. u_id r \<noteq> u_id u \<and> sql_eq (u_username r) (SText un)) (users d)
      \<longrightarrow> login None (snd (put_users None d (Some (u_id u)) b)) c =
            Responds 200 (Obj [(''success'', Val (JBool True)),
              (''user'', Obj [(''id'', Val (JNum (u_id u))),
                              (''name'', Val (js_of (sql_of (b ''name'')))),
                              (''username'', Val (JStr un)),
                              (''role'', Val (js_of (sql_of (b ''role''))))])]))"
proof (intro conjI impI)
  let ?taken = "list_ex (\<lambda>r. u_id r \<noteq> u_id u \<and> sql_eq (u_username r) (sql_of (b ''username'')))
                  (users d)"
  let ?u' = "u\<lparr>u_username := sql_of (b ''username''),
                         u_password := (if truthy (b ''password'') then sql_of (b ''password'')
                                        else u_password u),
                         u_name := sql_of (b ''name''), u_role := sql_of (b ''role'')\<rparr>"
  let ?rows' = "map (\<lambda>r. if u_id r = u_id u then ?u' else r) (users d)"
  from tx have pl: "plain (b ''username'')" "plain (b ''password'')" "plain (b ''name'')"
      "plain (b ''role'')"
    by (simp_all add: textual_plain)
  from u have ex: "list_ex (\<lambda>r. u_id r = u_id u) (users d)"
    by (auto simp: list_ex_iff)
  have m1: "map (\<lambda>r. if u_id r = u_id u then r\<lparr>u_username := sql_of (b ''username''),
                 u_password := sql_of (b ''password''),
                 u_name := sql_of (b ''name''), u_role := sql_of (b ''role'')\<rparr> else r) (users d)
     = map (\<lambda>r. if u_id r = u_id u then u\<lparr>u_username := sql_of (b ''username''),
                 u_password := sql_of (b ''password''),
                 u_name := sql_of (b ''name''), u_role := sql_of (b ''role'')\<rparr> else r) (users d)"
    by (rule users_wf_map_only [OF wf u])
  have m2: "map (\<lambda>r. if u_id r = u_id u then r\<lparr>u_username := sql_of (b ''username''),
                 u_name := sql_of (b ''name''), u_role := sql_of (b ''role'')\<rparr> else r) (users d)
     = map (\<lambda>r. if u_id r = u_id u then u\<lparr>u_username := sql_of (b ''username''),
                 u_name := sql_of (b ''name''), u_role := sql_of (b ''role'')\<rparr> else r) (users d)"
    by (rule users_wf_map_only [OF wf u])
  have ok: "put_users None d (Some (u_id u)) b
              = (Responds 200 (Obj [(''success'', Val (JBool True))]), d\<lparr>users := ?rows'\<rparr>)"
    if "\<not> ?taken"
    using that ex m1 m2 pl
    by (cases "truthy (b ''password'')")
       (simp_all add: put_users_plain update_user_with_password_def
          update_user_keep_password_def update_users_where_id_def success_def)
  {
    assume "\<not> ?taken"
    then show "put_users None d (Some (u_id u)) b
        = (Responds 200 (Obj [(''success'', Val (JBool True))]), d\<lparr>users := ?rows'\<rparr>)"
      by (rule ok)
  }
  {
    assume "?taken"
    with ex pl show "put_users None d (Some (u_id u)) b =
        (Responds 400 (Obj [(''success'', Val (JBool False)),
                            (''message'', Val (JStr ''Username already exists''))]), d)"
      by (cases "truthy (b ''password'')")
         (simp_all add: put_users_plain update_user_with_password_def
            update_user_keep_password_def update_users_where_id_def unique_violation_def
            failure_def)
  }
  {
    assume h: "\<not> truthy (b ''password'') \<and> b ''username'' = JStr un \<and> u_password u = SText pw \<and>
        c ''username'' = JStr un \<and> c ''password'' = JStr pw \<and>
        \<not> list_ex (\<lambda>r. u_id r \<noteq> u_id u \<and> sql_eq (u_username r) (SText un)) (users d)"
    then have nt: "\<not> ?taken" by simp
    have wf': "users_wf ?rows'"
      by (rule users_wf_update [OF wf nt, where f = "\<lambda>_. ?u'"]) simp
    have in': "?u' \<in> set ?rows'"
      using u by (auto simp: image_iff intro!: bexI[of _ u])
    have "find (\<lambda>r. sql_eq (u_username r) (SText un) \<and> sql_eq (u_password r) (SText pw)) ?rows'
            = Some ?u'"
      using h by (intro find_login_unique [OF wf' in']) simp_all
    with h ok [OF nt]
    show "login None (snd (put_users None d (Some (u_id u)) b)) c =
            Responds 200 (Obj [(''success'', Val (JBool True)),
              (''user'', Obj [(''id'', Val (JNum (u_id u))),
                              (''name'', Val (js_of (sql_of (b ''name'')))),
                              (''username'', Val (JStr un)),
                              (''role'', Val (js_of (sql_of (b ''role''))))])])"
      by (simp add: login_def with_params_plain select_user_login_def public_user_def)
  }
qed

theorem put_users_password_rule_witness:
  "put_users None example_db (Some 2)
     (body_of [(''username'', JStr ''robert''), (''name'', JStr ''Robert''), (''role'', JStr ''admin'')])
     = (Responds 200 (Obj [(''success'', Val (JBool True))]),
        example_db\<lparr>users := [admin_row,
           bob_row\<lparr>u_username := SText ''robert'', u_name := SText ''Robert'',
                   u_role := SText ''admin''\<rparr>]\<rparr>) \<and>
   put_users None example_db (Some 2)
     (body_of [(''username'', JStr ''robert''), (''password'', JStr ''new''),
               (''name'', JStr ''Robert''), (''role'', JStr ''admin'')])
     = (Responds 200 (Obj [(''success'', Val (JBool True))]),
        example_db\<lparr>users := [admin_row,
           bob_row\<lparr>u_username := SText ''robert'', u_password := SText ''new'',
                   u_name := SText ''Robert'', u_role := SText ''admin''\<rparr>]\<rparr>) \<and>
   login None (snd (put_users None example_db (Some 2)
       (body_of [(''username'', JStr ''robert''), (''name'', JStr ''Robert''), (''role'', JStr ''admin'')])))
     (body_of [(''username'', JStr ''robert''), (''password'', JStr ''secret'')])
     = Responds 200 (Obj [(''success'', Val (JBool True)),
         (''user'', Obj [(''id'', Val (JNum 2)), (''name'', Val (JStr ''Robert'')),
                         (''username'', Val (JStr ''robert'')), (''role'', Val (JStr ''admin''))])])"
proof -
  let ?b = "body_of [(''username'', JStr ''robert''), (''name'', JStr ''Robert''), (''role'', JStr ''admin'')]"
  let ?p = "body_of [(''username'', JStr ''robert''), (''password'', JStr ''new''),
               (''name'', JStr ''Robert''), (''role'', JStr ''admin'')]"
  let ?c = "body_of [(''username'', JStr ''robert''), (''password'', JStr ''secret'')]"
  have wf: "users_wf (users example_db)"
    by (simp add: users_wf_def example_db_def admin_row_def bob_row_def)
  have u: "bob_row \<in> set (users example_db)"
    by (simp add: example_db_def)
  have free: "\<not> list_ex (\<lambda>r. u_id r \<noteq> u_id bob_row \<and> sql_eq (u_username r) (SText ''robert''))
                  (users example_db)"
    by (simp add: example_db_def admin_row_def bob_row_def sql_eq_def)
  have b: "?b ''username'' = JStr ''robert''" "?b ''password'' = JUndefined"
      "?b ''name'' = JStr ''Robert''" "?b ''role'' = JStr ''admin''"
    and p: "?p ''username'' = JStr ''robert''" "?p ''password'' = JStr ''new''"
      "?p ''name'' = JStr ''Robert''" "?p ''role'' = JStr ''admin''"
    and c: "?c ''username'' = JStr ''robert''" "?c ''password'' = JStr ''secret''"
    by (simp_all add: body_of_def)
  have tb: "textual (?b ''username'')" "textual (?b ''password'')" "textual (?b ''name'')"
      "textual (?b ''role'')"
    and tp: "textual (?p ''username'')" "textual (?p ''password'')" "textual (?p ''name'')"
      "textual (?p ''role'')"
    by (simp_all add: b p)
  have k: "u_id bob_row = 2" "u_password bob_row = SText ''secret''"
    by (simp_all add: bob_row_def)
  note r1 = put_users_password_rule [OF wf u tb, of "''robert''" "''secret''" ?c]
  note r2 = put_users_password_rule [OF wf u tp]
  from r1 free have 1: "put_users None example_db (Some 2) ?b =
      (Responds 200 (Obj [(''success'', Val (JBool True))]),
        example_db\<lparr>users := [admin_row,
           bob_row\<lparr>u_username := SText ''robert'', u_name := SText ''Robert'',
                   u_role := SText ''admin''\<rparr>]\<rparr>)"
    unfolding b k by (simp add: example_db_def admin_row_def bob_row_def)
  from r2 free have 2: "put_users None example_db (Some 2) ?p =
      (Responds 200 (Obj [(''success'', Val (JBool True))]),
        example_db\<lparr>users := [admin_row,
           bob_row\<lparr>u_username := SText ''robert'', u_password := SText ''new'',
                   u_name := SText ''Robert'', u_role := SText ''admin''\<rparr>]\<rparr>)"
    unfolding p k by (simp add: example_db_def admin_row_def bob_row_def)
  have prem: "\<not> truthy (?b ''password'') \<and> ?b ''username'' = JStr ''robert'' \<and>
      u_password bob_row = SText ''secret'' \<and> ?c ''username'' = JStr ''robert'' \<and>
      ?c ''password'' = JStr ''secret'' \<and>
      \<not> list_ex (\<lambda>r. u_id r \<noteq> u_id bob_row \<and> sql_eq (u_username r) (SText ''robert''))
          (users example_db)"
    using free by (simp add: b c k)
  from r1 [THEN conjunct2, THEN conjunct2, rule_format, OF prem]
  have 3: "login None (snd (put_users None example_db (Some 2) ?b)) ?c
     = Responds 200 (Obj [(''success'', Val (JBool True)),
         (''user'', Obj [(''id'', Val (JNum 2)), (''name'', Val (JStr ''Robert'')),
                         (''username'', Val (JStr ''robert'')), (''role'', Val (JStr ''admin''))])])"
    by (simp add: b k)
  from 1 2 3 show ?thesis
    by (simp only:)
qed

text \<open>
  The claim as stated fails three times: a password that is supplied as the empty string
  does not replace the stored one; a request without a password that asks for another
  user's username overwrites nothing and is answered with status 400; and a request
  without a username and without a password stores NULL as the username, after which
  logging in with the previous username and password is refused with status 401.
\<close>

theorem put_users_claim_counterexample:
  "put_users None example_db (Some 2)
     (body_of [(''username'', JStr ''bob''), (''password'', JStr []), (''name'', JStr ''Bob''),
               (''role'', JStr ''editor'')])
     = (Responds 200 (Obj [(''success'', Val (JBool True))]), example_db) \<and>
   map u_password (users example_db) = [SText ''123456'', SText ''secret''] \<and>
   put_users None example_db (Some 2)
     (body_of [(''username'', JStr ''admin''), (''name'', JStr ''Bob''), (''role'', JStr ''editor'')])
     = (Responds 400 (Obj [(''success'', Val (JBool False)),
                           (''message'', Val (JStr ''Username already exists''))]), example_db) \<and>
   put_users None example_db (Some 2) (body_of [(''name'', JStr ''Zed'')])
     = (Responds 200 (Obj [(''success'', Val (JBool True))]),
        example_db\<lparr>users := [admin_row,
           bob_row\<lparr>u_username := SNull, u_name := SText ''Zed'', u_role := SNull\<rparr>]\<rparr>) \<and>
   login None (snd (put_users None example_db (Some 2) (body_of [(''name'', JStr ''Zed'')])))
     (body_of [(''username'', JStr ''bob''), (''password'', JStr ''secret'')])
     = Responds 401 (Obj [(''success'', Val (JBool False)),
                          (''message'', Val (JStr ''Invalid credentials''))])"
  by (simp add: put_users_def login_def select_user_login_def with_params_def
      update_user_with_password_def update_user_keep_password_def
      update_users_where_id_def Let_def unique_violation_def example_db_def admin_row_def
      bob_row_def body_of_def sql_eq_def id_argument_def success_def failure_def)


section \<open>Schema setup is idempotent\<close>


lemma fold_case_names [simp]:
  "fold_case ''users'' = ''users''" "fold_case ''services'' = ''services''"
  "fold_case ''team'' = ''team''"
  by (simp_all add: fold_case_def ascii_lower_def)

lemma same_name_refl [simp]: "same_name n n"
  by (simp add: same_name_def)

lemma visible_is_same_name:
  "list_ex (\<lambda>col. col_name col = n) (filter (\<lambda>col. \<not> col_hidden col) cs)
     \<Longrightarrow> list_ex (\<lambda>col. same_name (col_name col) n) cs"
  by (induction cs) (auto split: if_splits)

lemma create_closed:
  "create_table_if_not_exists t cols s =
     (if s (fold_case t) = Some Index then Inl (''there is already an index named '' @ t)
      else Inr (case s (fold_case t) of None \<Rightarrow> s(fold_case t \<mapsto> Table cols) | Some obj \<Rightarrow> s))"
  by (simp add: create_table_if_not_exists_def split: option.splits schema_object.splits)

lemma migrate_closed:
  assumes vis: "list_ex (\<lambda>col. col_name col = col_name c) (filter (\<lambda>col. \<not> col_hidden col) cols)"
    and ni: "s (fold_case t) \<noteq> Some Index"
  shows "migrate_column t c msg
           ((case s (fold_case t) of None \<Rightarrow> s(fold_case t \<mapsto> Table cols) | Some obj \<Rightarrow> s), log)
         = (s(fold_case t \<mapsto> object_after_setup cols c (s (fold_case t))),
            log @ migration_errors t c msg (s (fold_case t)))"
proof (cases "s (fold_case t)")
  case None
  with vis show ?thesis
    by (simp add: migrate_column_def table_info_def object_after_setup_def migration_errors_def)
next
  case (Some obj)
  then have idem: "s(fold_case t \<mapsto> obj) = s"
    by (simp add: map_upd_triv)
  show ?thesis
  proof (cases obj)
    case (Table cs)
    with Some idem show ?thesis
      using visible_is_same_name [of "col_name c" cs]
      by (auto simp: migrate_column_def table_info_def object_after_setup_def
          migration_errors_def alter_table_add_column_def Let_def)
  next
    case (View cs)
    with Some idem show ?thesis
      by (auto simp: migrate_column_def table_info_def object_after_setup_def
          migration_errors_def alter_table_add_column_def Let_def)
  next
    case (Virtual_table cs)
    with Some idem show ?thesis
      by (auto simp: migrate_column_def table_info_def object_after_setup_def
          migration_errors_def alter_table_add_column_def Let_def)
  next
    case Index
    with Some ni show ?thesis by simp
  qed
qed

lemma seed_columns_present:
  "list_ex (\<lambda>col. col_name col = col_name role_column)
     (filter (\<lambda>col. \<not> col_hidden col) users_columns)"
  "list_ex (\<lambda>col. col_name col = col_name (plain_column ''file_url'' ''TEXT''))
     (filter (\<lambda>col. \<not> col_hidden col) services_columns)"
  "list_ex (\<lambda>col. col_name col = col_name (plain_column ''icon'' ''TEXT''))
     (filter (\<lambda>col. \<not> col_hidden col) team_columns)"
  by (simp_all add: users_columns_def services_columns_def team_columns_def role_column_def
      plain_column_def id_column_def)

lemma seed_columns_shown:
  "\<not> col_hidden role_column" "\<not> col_hidden (plain_column ''file_url'' ''TEXT'')"
  "\<not> col_hidden (plain_column ''icon'' ''TEXT'')"
  by (simp_all add: role_column_def plain_column_def)

lemma table_step:
  assumes vis: "list_ex (\<lambda>col. col_name col = col_name c) (filter (\<lambda>col. \<not> col_hidden col) cols)"
    and ni: "s (fold_case t) \<noteq> Some Index"
  shows "\<exists>s1. create_table_if_not_exists t cols s = Inr s1 \<and>
           migrate_column t c msg (s1, log)
             = (s(fold_case t \<mapsto> object_after_setup cols c (s (fold_case t))),
                log @ migration_errors t c msg (s (fold_case t)))"
  using vis ni migrate_closed [where c = c and cols = cols and s = s and t = t and msg = msg
      and log = log]
  by (simp add: create_closed)

lemma schema_setup_closed:
  "schema_setup s =
     (if s ''users'' = Some Index
      then (s, [], Some ''there is already an index named users'')
      else if s ''services'' = Some Index
      then (s(''users'' \<mapsto> object_after_setup users_columns role_column (s ''users'')),
            migration_errors ''users'' role_column ''Error checking/adding role column:''
              (s ''users''),
            Some ''there is already an index named services'')
      else if s ''team'' = Some Index
      then (s(''users'' \<mapsto> object_after_setup users_columns role_column (s ''users''),
              ''services'' \<mapsto> object_after_setup services_columns
                                (plain_column ''file_url'' ''TEXT'') (s ''services'')),
            migration_errors ''users'' role_column ''Error checking/adding role column:''
              (s ''users'') @
            migration_errors ''services'' (plain_column ''file_url'' ''TEXT'')
              ''Error checking/adding file_url column to services table:'' (s ''services''),
            Some ''there is already an index named team'')
      else (s(''users'' \<mapsto> object_after_setup users_columns role_column (s ''users''),
              ''services'' \<mapsto> object_after_setup services_columns
                                (plain_column ''file_url'' ''TEXT'') (s ''services''),
              ''team'' \<mapsto> object_after_setup team_columns (plain_column ''icon'' ''TEXT'')
                            (s ''team'')),
            migration_errors ''users'' role_column ''Error checking/adding role column:''
              (s ''users'') @
            migration_errors ''services'' (plain_column ''file_url'' ''TEXT'')
              ''Error checking/adding file_url column to services table:'' (s ''services'') @
            migration_errors ''team'' (plain_column ''icon'' ''TEXT'')
              ''Error checking/adding icon column to team table:'' (s ''team''),
            None))"
proof (cases "s ''users'' = Some Index")
  case True
  then show ?thesis
    by (simp add: schema_setup_def create_closed)
next
  case u: False
  let ?s2 = "s(''users'' \<mapsto> object_after_setup users_columns role_column (s ''users''))"
  let ?e2 = "migration_errors ''users'' role_column ''Error checking/adding role column:''
              (s ''users'')"
  from table_step [OF seed_columns_present(1), of s "''users''"
      "''Error checking/adding role column:''" "[]"] u
  obtain s1 where c1: "create_table_if_not_exists ''users'' users_columns s = Inr s1"
    and m1: "migrate_column ''users'' role_column ''Error checking/adding role column:'' (s1, [])
               = (?s2, ?e2)"
    by auto
  show ?thesis
  proof (cases "s ''services'' = Some Index")
    case True
    with u show ?thesis
      by (simp add: schema_setup_def c1 m1 create_closed [of "''services''"])
  next
    case v: False
    let ?s4 = "?s2(''services'' \<mapsto> object_after_setup services_columns
                                (plain_column ''file_url'' ''TEXT'') (s ''services''))"
    let ?e4 = "?e2 @ migration_errors ''services'' (plain_column ''file_url'' ''TEXT'')
              ''Error checking/adding file_url column to services table:'' (s ''services'')"
    from table_step [OF seed_columns_present(2), of ?s2 "''services''"
        "''Error checking/adding file_url column to services table:''" ?e2] v
    obtain s3 where c3: "create_table_if_not_exists ''services'' services_columns ?s2 = Inr s3"
      and m3: "migrate_column ''services'' (plain_column ''file_url'' ''TEXT'')
                 ''Error checking/adding file_url column to services table:'' (s3, ?e2)
               = (?s4, ?e4)"
      by auto
    show ?thesis
    proof (cases "s ''team'' = Some Index")
      case True
      with u v show ?thesis
        by (simp add: schema_setup_def c1 m1 c3 m3 create_closed [of "''team''"])
    next
      case w: False
      from table_step [OF seed_columns_present(3), of ?s4 "''team''"
          "''Error checking/adding icon column to team table:''" ?e4] w
      obtain s5 where c5: "create_table_if_not_exists ''team'' team_columns ?s4 = Inr s5"
        and m5: "migrate_column ''team'' (plain_column ''icon'' ''TEXT'')
                   ''Error checking/adding icon column to team table:'' (s5, ?e4)
                 = (?s4(''team'' \<mapsto> object_after_setup team_columns
                                   (plain_column ''icon'' ''TEXT'') (s ''team'')),
                    ?e4 @ migration_errors ''team'' (plain_column ''icon'' ''TEXT'')
                            ''Error checking/adding icon column to team table:'' (s ''team''))"
        by auto
      from u v w show ?thesis
        by (simp add: schema_setup_def c1 m1 c3 m3 c5 m5)
    qed
  qed
qed

lemma object_after_setup_idem:
  assumes vis: "list_ex (\<lambda>col. col_name col = col_name c) (filter (\<lambda>col. \<not> col_hidden col) cols)"
    and sh: "\<not> col_hidden c"
  shows "object_after_setup cols c (Some (object_after_setup cols c prior))
           = object_after_setup cols c prior"
proof (cases prior)
  case None
  with vis show ?thesis by (simp add: object_after_setup_def)
next
  case (Some obj)
  with sh show ?thesis
    by (cases obj) (auto simp: object_after_setup_def)
qed

lemma migration_errors_idem:
  assumes vis: "list_ex (\<lambda>col. col_name col = col_name c) (filter (\<lambda>col. \<not> col_hidden col) cols)"
    and sh: "\<not> col_hidden c"
  shows "migration_errors t c msg (Some (object_after_setup cols c prior))
           = migration_errors t c msg prior"
proof (cases prior)
  case None
  with vis show ?thesis by (simp add: object_after_setup_def migration_errors_def)
next
  case (Some obj)
  with sh show ?thesis
    by (cases obj) (auto simp: object_after_setup_def migration_errors_def)
qed

lemma object_after_setup_index:
  "(object_after_setup cols c prior = Index) = (prior = Some Index)"
  by (cases prior; simp add: object_after_setup_def split: schema_object.splits)

lemma object_after_setup_distinct:
  assumes "distinct (map (\<lambda>c. fold_case (col_name c)) cols)"
    and "\<And>obj. prior = Some obj \<Longrightarrow> distinct (map (\<lambda>c. fold_case (col_name c)) (columns_of obj))"
  shows "distinct (map (\<lambda>c. fold_case (col_name c)) (columns_of (object_after_setup cols c prior)))"
proof (cases prior)
  case None
  with assms show ?thesis by (simp add: object_after_setup_def)
next
  case (Some obj)
  with assms(2) show ?thesis
    by (cases obj) (auto simp: object_after_setup_def list_ex_iff same_name_def)
qed

lemma seed_columns_distinct:
  "distinct (map (\<lambda>c. fold_case (col_name c)) users_columns)"
  "distinct (map (\<lambda>c. fold_case (col_name c)) services_columns)"
  "distinct (map (\<lambda>c. fold_case (col_name c)) team_columns)"
  by (simp_all add: users_columns_def services_columns_def team_columns_def role_column_def
      plain_column_def id_column_def fold_case_def ascii_lower_def)

lemma no_duplicate_columns_upd:
  "no_duplicate_columns s \<Longrightarrow> distinct (map (\<lambda>c. fold_case (col_name c)) (columns_of obj))
     \<Longrightarrow> no_duplicate_columns (s(k \<mapsto> obj))"
  by (simp add: no_duplicate_columns_def)

lemma ready_for_facts:
  assumes r: "ready_for s t c"
    and vis: "list_ex (\<lambda>col. col_name col = col_name c) (filter (\<lambda>col. \<not> col_hidden col) cols)"
    and sh: "\<not> col_hidden c"
  shows "s (fold_case t) \<noteq> Some Index"
    and "migration_errors t c msg (s (fold_case t)) = []"
    and "list_ex (\<lambda>col. col_name col = col_name c)
           (filter (\<lambda>col. \<not> col_hidden col)
              (columns_of (object_after_setup cols c (s (fold_case t)))))"
    and "\<exists>cs. object_after_setup cols c (s (fold_case t)) = Table cs"
proof -
  show "s (fold_case t) \<noteq> Some Index"
    using r by (auto simp: ready_for_def)
  show "migration_errors t c msg (s (fold_case t)) = []"
    using r
    by (cases "s (fold_case t)")
       (auto simp: ready_for_def migration_errors_def split: schema_object.splits)
  show "list_ex (\<lambda>col. col_name col = col_name c)
           (filter (\<lambda>col. \<not> col_hidden col)
              (columns_of (object_after_setup cols c (s (fold_case t)))))"
    using r vis sh
    by (cases "s (fold_case t)")
       (auto simp: ready_for_def object_after_setup_def split: schema_object.splits)
  show "\<exists>cs. object_after_setup cols c (s (fold_case t)) = Table cs"
    using r
    by (cases "s (fold_case t)")
       (auto simp: ready_for_def object_after_setup_def split: schema_object.splits)
qed

lemma column_names:
  "col_name role_column = ''role''" "col_name (plain_column ''file_url'' ''TEXT'') = ''file_url''"
  "col_name (plain_column ''icon'' ''TEXT'') = ''icon''"
  by (simp_all add: role_column_def plain_column_def)

lemma fold_case_columns:
  "fold_case ''id'' = ''id''" "fold_case ''username'' = ''username''"
  "fold_case ''password'' = ''password''" "fold_case ''name'' = ''name''"
  "fold_case ''role'' = ''role''"
  "fold_case ''title'' = ''title''" "fold_case ''description'' = ''description''"
  "fold_case ''icon'' = ''icon''" "fold_case ''file_url'' = ''file_url''"
  "fold_case ''image'' = ''image''"
  by (simp_all add: fold_case_def ascii_lower_def)

text \<open>
  C5. For every prior schema: running the schema setup on the result of a first run
  yields the same schema as the first run, logs the same errors and ends the same
  way; a schema with no duplicate column names stays so; no name other than
  \<open>users\<close>, \<open>services\<close> and \<open>team\<close> is touched; and unless an index has one of the
  three names, nothing is raised: what a migration fails on is caught and logged, the
  table staying as it is. When each of the three names is free or
  stands for an ordinary table that shows the migrated column or has room for it and
  no column of that name (what a data file written by any release of the program has),
  neither run logs or raises an error, and afterwards users shows a column \<open>role\<close>,
  services a column \<open>file_url\<close> and team a column \<open>icon\<close>.
\<close>

theorem schema_setup_idempotent:
  "schema_setup (fst (schema_setup s)) = schema_setup s \<and>
   (no_duplicate_columns s \<longrightarrow> no_duplicate_columns (fst (schema_setup s))) \<and>
   (\<forall>t. t \<noteq> ''users'' \<and> t \<noteq> ''services'' \<and> t \<noteq> ''team'' \<longrightarrow> fst (schema_setup s) t = s t) \<and>
   (s ''users'' \<noteq> Some Index \<and> s ''services'' \<noteq> Some Index \<and> s ''team'' \<noteq> Some Index \<longrightarrow>
      snd (snd (schema_setup s)) = None) \<and>
   (ready_for s ''users'' role_column \<and>
    ready_for s ''services'' (plain_column ''file_url'' ''TEXT'') \<and>
    ready_for s ''team'' (plain_column ''icon'' ''TEXT'') \<longrightarrow>
      snd (schema_setup s) = ([], None) \<and>
      snd (schema_setup (fst (schema_setup s))) = ([], None) \<and>
      list_ex (\<lambda>col. col_name col = ''role'') (table_info (fst (schema_setup s)) ''users'') \<and>
      list_ex (\<lambda>col. col_name col = ''file_url'')
        (table_info (fst (schema_setup s)) ''services'') \<and>
      list_ex (\<lambda>col. col_name col = ''icon'') (table_info (fst (schema_setup s)) ''team''))"
proof -
  let ?ou = "\<lambda>s. object_after_setup users_columns role_column (s ''users'')"
  let ?os = "\<lambda>s. object_after_setup services_columns (plain_column ''file_url'' ''TEXT'')
                    (s ''services'')"
  let ?ot = "\<lambda>s. object_after_setup team_columns (plain_column ''icon'' ''TEXT'') (s ''team'')"
  note idem = object_after_setup_idem [OF seed_columns_present(1) seed_columns_shown(1)]
    object_after_setup_idem [OF seed_columns_present(2) seed_columns_shown(2)]
    object_after_setup_idem [OF seed_columns_present(3) seed_columns_shown(3)]
  note eidem = migration_errors_idem [OF seed_columns_present(1) seed_columns_shown(1)]
    migration_errors_idem [OF seed_columns_present(2) seed_columns_shown(2)]
    migration_errors_idem [OF seed_columns_present(3) seed_columns_shown(3)]
  have twice: "schema_setup (fst (schema_setup s)) = schema_setup s"
  proof (cases "s ''users'' = Some Index")
    case True
    then show ?thesis by (simp add: schema_setup_closed)
  next
    case u: False
    show ?thesis
    proof (cases "s ''services'' = Some Index")
      case True
      let ?s' = "s(''users'' \<mapsto> ?ou s)"
      from u True have 1: "schema_setup s =
          (?s', migration_errors ''users'' role_column ''Error checking/adding role column:''
              (s ''users''), Some ''there is already an index named services'')"
        by (simp add: schema_setup_closed)
      have "schema_setup ?s' = schema_setup s"
        unfolding 1 using u True
        by (simp add: schema_setup_closed [of ?s'] object_after_setup_index idem eidem)
      with 1 show ?thesis by simp
    next
      case v: False
      show ?thesis
      proof (cases "s ''team'' = Some Index")
        case True
        let ?s' = "s(''users'' \<mapsto> ?ou s, ''services'' \<mapsto> ?os s)"
        from u v True have 1: "schema_setup s =
          (?s', migration_errors ''users'' role_column ''Error checking/adding role column:''
              (s ''users'') @
            migration_errors ''services'' (plain_column ''file_url'' ''TEXT'')
              ''Error checking/adding file_url column to services table:'' (s ''services''),
            Some ''there is already an index named team'')"
          by (simp add: schema_setup_closed)
        have up: "?s'(''users'' \<mapsto> ?ou s, ''services'' \<mapsto> ?os s) = ?s'"
          by (simp add: fun_eq_iff)
        have "schema_setup ?s' = schema_setup s"
          unfolding 1 using u v True
          by (simp add: schema_setup_closed [of ?s'] object_after_setup_index idem eidem up)
        with 1 show ?thesis by simp
      next
        case w: False
        let ?s' = "s(''users'' \<mapsto> ?ou s, ''services'' \<mapsto> ?os s, ''team'' \<mapsto> ?ot s)"
        from u v w have 1: "schema_setup s =
          (?s', migration_errors ''users'' role_column ''Error checking/adding role column:''
              (s ''users'') @
            migration_errors ''services'' (plain_column ''file_url'' ''TEXT'')
              ''Error checking/adding file_url column to services table:'' (s ''services'') @
            migration_errors ''team'' (plain_column ''icon'' ''TEXT'')
              ''Error checking/adding icon column to team table:'' (s ''team''),
            None)"
          by (simp add: schema_setup_closed)
        have up: "?s'(''users'' \<mapsto> ?ou s, ''services'' \<mapsto> ?os s, ''team'' \<mapsto> ?ot s) = ?s'"
          by (simp add: fun_eq_iff)
        have "schema_setup ?s' = schema_setup s"
          unfolding 1 using u v w
          by (simp add: schema_setup_closed [of ?s'] object_after_setup_index idem eidem up)
        with 1 show ?thesis by simp
      qed
    qed
  qed
  have nodup: "no_duplicate_columns (fst (schema_setup s))" if nd: "no_duplicate_columns s"
  proof -
    have du: "distinct (map (\<lambda>c. fold_case (col_name c)) (columns_of (?ou s)))"
      using nd by (intro object_after_setup_distinct seed_columns_distinct)
        (auto simp: no_duplicate_columns_def)
    have ds: "distinct (map (\<lambda>c. fold_case (col_name c)) (columns_of (?os s)))"
      using nd by (intro object_after_setup_distinct seed_columns_distinct)
        (auto simp: no_duplicate_columns_def)
    have dt: "distinct (map (\<lambda>c. fold_case (col_name c)) (columns_of (?ot s)))"
      using nd by (intro object_after_setup_distinct seed_columns_distinct)
        (auto simp: no_duplicate_columns_def)
    note a = no_duplicate_columns_upd [OF nd du]
    note b = no_duplicate_columns_upd [OF a ds]
    note c = no_duplicate_columns_upd [OF b dt]
    from nd a b c show ?thesis
      by (simp add: schema_setup_closed)
  qed
  have other: "fst (schema_setup s) t = s t"
    if "t \<noteq> ''users'' \<and> t \<noteq> ''services'' \<and> t \<noteq> ''team''" for t
    using that by (simp add: schema_setup_closed)
  have ready: "snd (schema_setup s) = ([], None) \<and>
      snd (schema_setup (fst (schema_setup s))) = ([], None) \<and>
      list_ex (\<lambda>col. col_name col = ''role'') (table_info (fst (schema_setup s)) ''users'') \<and>
      list_ex (\<lambda>col. col_name col = ''file_url'')
        (table_info (fst (schema_setup s)) ''services'') \<and>
      list_ex (\<lambda>col. col_name col = ''icon'') (table_info (fst (schema_setup s)) ''team'')"
    if r: "ready_for s ''users'' role_column \<and>
    ready_for s ''services'' (plain_column ''file_url'' ''TEXT'') \<and>
    ready_for s ''team'' (plain_column ''icon'' ''TEXT'')"
  proof -
    note fu = ready_for_facts [OF r [THEN conjunct1] seed_columns_present(1) seed_columns_shown(1),
        unfolded fold_case_names column_names]
    note fs = ready_for_facts [OF r [THEN conjunct2, THEN conjunct1] seed_columns_present(2)
        seed_columns_shown(2), unfolded fold_case_names column_names]
    note ft = ready_for_facts [OF r [THEN conjunct2, THEN conjunct2] seed_columns_present(3)
        seed_columns_shown(3), unfolded fold_case_names column_names]
    have e: "snd (schema_setup s) = ([], None)"
      using fu(1) fs(1) ft(1) by (simp add: schema_setup_closed fu(2) fs(2) ft(2))
    have f: "fst (schema_setup s) = s(''users'' \<mapsto> ?ou s, ''services'' \<mapsto> ?os s, ''team'' \<mapsto> ?ot s)"
      using fu(1) fs(1) ft(1) by (simp add: schema_setup_closed)
    from e twice have e2: "snd (schema_setup (fst (schema_setup s))) = ([], None)"
      by simp
    from fu(3) fs(3) ft(3) e e2 show ?thesis
      unfolding f by (simp add: table_info_def)
  qed
  have caught: "snd (snd (schema_setup s)) = None"
    if "s ''users'' \<noteq> Some Index \<and> s ''services'' \<noteq> Some Index \<and> s ''team'' \<noteq> Some Index"
    using that by (simp add: schema_setup_closed)
  from twice nodup other caught ready show ?thesis
    by blast
qed

theorem schema_setup_idempotent_witness:
  "schema_setup (fst (schema_setup legacy_schema)) = schema_setup legacy_schema \<and>
   snd (schema_setup legacy_schema) = ([], None) \<and>
   snd (schema_setup (fst (schema_setup legacy_schema))) = ([], None) \<and>
   fst (schema_setup legacy_schema) ''users'' = Some (Table (legacy_users_columns @ [role_column])) \<and>
   fst (schema_setup legacy_schema) ''services'' = Some (Table services_columns) \<and>
   fst (schema_setup legacy_schema) ''team'' = Some (Table team_columns) \<and>
   fst (schema_setup legacy_schema) ''posts'' = None \<and>
   no_duplicate_columns (fst (schema_setup legacy_schema))"
proof -
  note t = schema_setup_idempotent [of legacy_schema]
  have nd: "no_duplicate_columns legacy_schema"
    by (simp add: no_duplicate_columns_def legacy_schema_def legacy_users_columns_def
        id_column_def plain_column_def fold_case_columns)
  have r: "ready_for legacy_schema ''users'' role_column \<and>
    ready_for legacy_schema ''services'' (plain_column ''file_url'' ''TEXT'') \<and>
    ready_for legacy_schema ''team'' (plain_column ''icon'' ''TEXT'')"
    by (simp add: ready_for_def legacy_schema_def legacy_users_columns_def id_column_def
        plain_column_def role_column_def same_name_def fold_case_columns max_columns_def)
  from t have 1: "schema_setup (fst (schema_setup legacy_schema)) = schema_setup legacy_schema"
    by (rule conjunct1)
  from t nd have 2: "no_duplicate_columns (fst (schema_setup legacy_schema))"
    by blast
  from t r have 3: "snd (schema_setup legacy_schema) = ([], None)"
    "snd (schema_setup (fst (schema_setup legacy_schema))) = ([], None)"
    by blast+
  from t have 5: "fst (schema_setup legacy_schema) ''posts'' = legacy_schema ''posts''"
    by simp
  have 6: "legacy_schema ''posts'' = None"
    by (simp add: legacy_schema_def)
  have 4: "fst (schema_setup legacy_schema) ''users''
             = Some (Table (legacy_users_columns @ [role_column]))"
    "fst (schema_setup legacy_schema) ''services'' = Some (Table services_columns)"
    "fst (schema_setup legacy_schema) ''team'' = Some (Table team_columns)"
    by (simp_all add: schema_setup_closed object_after_setup_def legacy_schema_def
        legacy_users_columns_def id_column_def plain_column_def role_column_def same_name_def
        fold_case_columns max_columns_def)
  from 1 2 3 4 5 6 show ?thesis by (simp only:)
qed


section \<open>Seeding the services\<close>

lemma fold_max_bounded: "\<forall>i\<in>set ids. i \<le> seq \<Longrightarrow> fold max ids (seq::int) = seq"
  by (induction ids) (auto simp: max_absorb2)

lemma new_rowid_bounded: "\<forall>i\<in>set ids. i \<le> seq \<Longrightarrow> new_rowid seq ids = seq + 1"
  by (simp add: new_rowid_def fold_max_bounded)

lemma insert_services_result:
  assumes "\<forall>r\<in>set (services d). s_id r \<le> services_seq d"
  shows "insert_services ss d =
           Inr (d\<lparr>services := services d @ numbered_services (services_seq d) ss,
                  services_seq := services_seq d + int (length ss)\<rparr>)"
  using assms
proof (induction ss arbitrary: d)
  case Nil
  then show ?case by simp
next
  case (Cons s ss)
  let ?row = "\<lparr>s_id = services_seq d + 1, s_title = SText (ss_title s),
               s_description = SText (ss_description s), s_icon = SText (ss_icon s),
               s_file_url = SNull\<rparr>"
  let ?d1 = "d\<lparr>services := services d @ [?row], services_seq := services_seq d + 1\<rparr>"
  from Cons.prems have nid: "new_rowid (services_seq d) (map s_id (services d)) = services_seq d + 1"
    by (intro new_rowid_bounded) auto
  then have step: "insert_service None d (SText (ss_title s)) (SText (ss_description s))
      (SText (ss_icon s)) SNull = Inr (services_seq d + 1, ?d1)"
    by (simp add: insert_service_def Let_def)
  from Cons.prems have "\<forall>r\<in>set (services ?d1). s_id r \<le> services_seq ?d1"
    by auto
  from Cons.IH [OF this] step show ?case
    by (simp add: algebra_simps)
qed

lemma numbered_services_fields:
  "map (\<lambda>r. (s_title r, s_description r, s_icon r, s_file_url r)) (numbered_services k ss)
     = map (\<lambda>s. (SText (ss_title s), SText (ss_description s), SText (ss_icon s), SNull)) ss"
  by (induction ss arbitrary: k) auto

text \<open>
  C6. When the services table is empty at startup, the services step of the Seed Loader
  returns, and afterwards the table holds the six records of \<^verbatim>\<open>initialServices\<close>, in
  the order of the source, each with its title, description and icon and with NULL as
  file URL, under six consecutive new keys; users and team are untouched. When the
  table is not empty, the step leaves the store as it is.
\<close>

theorem seed_services_default_list:
  "(services d = [] \<longrightarrow>
      (\<exists>d'. seed_services d = Inr d' \<and>
         map (\<lambda>r. (s_title r, s_description r, s_icon r, s_file_url r)) (services d')
           = map (\<lambda>s. (SText (ss_title s), SText (ss_description s), SText (ss_icon s), SNull))
               initialServices \<and>
         map s_id (services d') = map (\<lambda>i. services_seq d + i) [1, 2, 3, 4, 5, 6] \<and>
         users d' = users d \<and> team d' = team d)) \<and>
   (services d \<noteq> [] \<longrightarrow> seed_services d = Inr d)"
proof (intro conjI impI)
  assume e: "services d = []"
  then have "insert_services initialServices d =
           Inr (d\<lparr>services := services d @ numbered_services (services_seq d) initialServices,
                  services_seq := services_seq d + int (length initialServices)\<rparr>)"
    by (intro insert_services_result) simp
  moreover have "map s_id (numbered_services (services_seq d) initialServices)
       = map (\<lambda>i. services_seq d + i) [1, 2, 3, 4, 5, 6]"
    by (simp add: initialServices_def)
  ultimately show "\<exists>d'. seed_services d = Inr d' \<and>
         map (\<lambda>r. (s_title r, s_description r, s_icon r, s_file_url r)) (services d')
           = map (\<lambda>s. (SText (ss_title s), SText (ss_description s), SText (ss_icon s), SNull))
               initialServices \<and>
         map s_id (services d') = map (\<lambda>i. services_seq d + i) [1, 2, 3, 4, 5, 6] \<and>
         users d' = users d \<and> team d' = team d"
    using e by (simp add: seed_services_def numbered_services_fields)
next
  assume "services d \<noteq> []"
  then show "seed_services d = Inr d"
    by (simp add: seed_services_def)
qed

theorem seed_services_default_list_witness:
  "(\<exists>d'. seed_services empty_db = Inr d' \<and>
      map s_icon (services d') = [SText ''Leaf'', SText ''Globe'', SText ''Building2'',
         SText ''Briefcase'', SText ''Gavel'', SText ''Scale''] \<and>
      map s_title (services d') = [SText title_Leaf, SText title_Globe, SText title_Building2,
         SText title_Briefcase, SText title_Gavel, SText title_Scale] \<and>
      map s_file_url (services d') = [SNull, SNull, SNull, SNull, SNull, SNull] \<and>
      map s_id (services d') = [1, 2, 3, 4, 5, 6]) \<and>
   seed_services example_db = Inr example_db"
proof -
  have e: "services empty_db = []" and q: "services_seq empty_db = 0"
    by (simp_all add: empty_db_def)
  from seed_services_default_list [of empty_db] e
  obtain d' where d': "seed_services empty_db = Inr d'"
    and f: "map (\<lambda>r. (s_title r, s_description r, s_icon r, s_file_url r)) (services d')
           = map (\<lambda>s. (SText (ss_title s), SText (ss_description s), SText (ss_icon s), SNull))
               initialServices"
    and i: "map s_id (services d') = map (\<lambda>i. services_seq empty_db + i) [1, 2, 3, 4, 5, 6]"
    by blast
  from arg_cong [OF f, of "map (\<lambda>p. fst (snd (snd p)))"]
  have ic: "map s_icon (services d') = [SText ''Leaf'', SText ''Globe'', SText ''Building2'',
         SText ''Briefcase'', SText ''Gavel'', SText ''Scale'']"
    by (simp add: comp_def initialServices_def)
  from arg_cong [OF f, of "map fst"]
  have ti: "map s_title (services d') = [SText title_Leaf, SText title_Globe, SText title_Building2,
         SText title_Briefcase, SText title_Gavel, SText title_Scale]"
    by (simp add: comp_def initialServices_def)
  from arg_cong [OF f, of "map (\<lambda>p. snd (snd (snd p)))"]
  have fu: "map s_file_url (services d') = [SNull, SNull, SNull, SNull, SNull, SNull]"
    by (simp add: comp_def initialServices_def)
  from i q have ids: "map s_id (services d') = [1, 2, 3, 4, 5, 6]"
    by simp
  have ne: "services example_db \<noteq> []"
    by (simp add: example_db_def)
  with seed_services_default_list [of example_db]
  have "seed_services example_db = Inr example_db"
    by blast
  with d' ic ti fu ids show ?thesis
    by (intro conjI exI [of _ d']) 
qed


section \<open>Updating or deleting a row that does not exist\<close>

text \<open>
  C7, as the code has it. For users, services and team alike, with the store call
  running: when no row has the key of the request, a DELETE is answered with status 200
  and \<^verbatim>\<open>{success: true}\<close> and the store is as before; so is a PUT whose four body fields are
  each a string, a number, \<^verbatim>\<open>null\<close> or absent.
\<close>

theorem missing_key_is_silent_success:
  shows "((\<forall>r\<in>set (users d). Some (u_id r) \<noteq> rid) \<longrightarrow>
            delete_users None d rid = (Responds 200 (Obj [(''success'', Val (JBool True))]), d) \<and>
            (plain (b ''username'') \<and> plain (b ''password'') \<and> plain (b ''name'') \<and>
             plain (b ''role'') \<longrightarrow>
             put_users None d rid b = (Responds 200 (Obj [(''success'', Val (JBool True))]), d)))
       \<and> ((\<forall>r\<in>set (services d). Some (s_id r) \<noteq> rid) \<longrightarrow>
            delete_services None d rid
              = (Responds 200 (Obj [(''success'', Val (JBool True))]), d) \<and>
            (plain (b ''title'') \<and> plain (b ''description'') \<and> plain (b ''icon'') \<and>
             plain (b ''file_url'') \<longrightarrow>
             put_services None d rid b
               = (Responds 200 (Obj [(''success'', Val (JBool True))]), d)))
       \<and> ((\<forall>r\<in>set (team d). Some (t_id r) \<noteq> rid) \<longrightarrow>
            delete_team_member None d rid
              = (Responds 200 (Obj [(''success'', Val (JBool True))]), d) \<and>
            (plain (b ''name'') \<and> plain (b ''title'') \<and> plain (b ''image'') \<and>
             plain (b ''icon'') \<longrightarrow>
             put_team None d rid b = (Responds 200 (Obj [(''success'', Val (JBool True))]), d)))"
proof (intro conjI impI)
  assume h: "\<forall>r\<in>set (users d). Some (u_id r) \<noteq> rid"
  have nk: "\<And>k. rid = Some k \<Longrightarrow> \<not> list_ex (\<lambda>u. u_id u = k) (users d)"
    using h by (auto simp: list_ex_iff)
  have mk: "\<And>k f. rid = Some k \<Longrightarrow> map (\<lambda>u. if u_id u = k then f u else u) (users d) = users d"
    using h by (auto intro: map_idI)
  from h have "filter (\<lambda>u. Some (u_id u) \<noteq> rid) (users d) = users d"
    by (simp add: filter_id_conv)
  then show "delete_users None d rid = (Responds 200 (Obj [(''success'', Val (JBool True))]), d)"
    by (simp add: delete_users_def with_params_plain delete_user_def success_def)
  assume "plain (b ''username'') \<and> plain (b ''password'') \<and> plain (b ''name'') \<and>
             plain (b ''role'')"
  then show "put_users None d rid b = (Responds 200 (Obj [(''success'', Val (JBool True))]), d)"
    by (cases rid)
       (simp_all add: put_users_def with_params_plain update_user_with_password_def
          update_user_keep_password_def update_users_where_id_def nk mk Let_def success_def)
next
  assume h: "\<forall>r\<in>set (services d). Some (s_id r) \<noteq> rid"
  then have m: "\<And>f. map (\<lambda>r. if Some (s_id r) = rid then f r else r) (services d) = services d"
    by (simp add: map_idI)
  from h have "filter (\<lambda>r. Some (s_id r) \<noteq> rid) (services d) = services d"
    by (simp add: filter_id_conv)
  then show "delete_services None d rid
      = (Responds 200 (Obj [(''success'', Val (JBool True))]), d)"
    by (simp add: delete_services_def with_params_plain delete_service_def success_def)
  assume "plain (b ''title'') \<and> plain (b ''description'') \<and> plain (b ''icon'') \<and>
             plain (b ''file_url'')"
  with m show "put_services None d rid b
      = (Responds 200 (Obj [(''success'', Val (JBool True))]), d)"
    by (simp add: put_services_def with_params_plain update_service_def Let_def success_def)
next
  assume h: "\<forall>r\<in>set (team d). Some (t_id r) \<noteq> rid"
  then have m: "\<And>f. map (\<lambda>r. if Some (t_id r) = rid then f r else r) (team d) = team d"
    by (simp add: map_idI)
  from h have "filter (\<lambda>r. Some (t_id r) \<noteq> rid) (team d) = team d"
    by (simp add: filter_id_conv)
  then show "delete_team_member None d rid
      = (Responds 200 (Obj [(''success'', Val (JBool True))]), d)"
    by (simp add: delete_team_member_def with_params_plain delete_team_def success_def)
  assume "plain (b ''name'') \<and> plain (b ''title'') \<and> plain (b ''image'') \<and>
             plain (b ''icon'')"
  with m show "put_team None d rid b = (Responds 200 (Obj [(''success'', Val (JBool True))]), d)"
    by (simp add: put_team_def with_params_plain update_team_def Let_def success_def)
qed

theorem missing_key_is_silent_success_witness:
  "delete_team_member None example_db (Some 7)
     = (Responds 200 (Obj [(''success'', Val (JBool True))]), example_db) \<and>
   put_team None example_db (Some 7) (body_of [(''name'', JStr ''Zed'')])
     = (Responds 200 (Obj [(''success'', Val (JBool True))]), example_db) \<and>
   delete_services None example_db (Some 7)
     = (Responds 200 (Obj [(''success'', Val (JBool True))]), example_db) \<and>
   put_services None example_db (Some 7) (body_of [(''name'', JStr ''Zed'')])
     = (Responds 200 (Obj [(''success'', Val (JBool True))]), example_db) \<and>
   delete_users None example_db (Some 7)
     = (Responds 200 (Obj [(''success'', Val (JBool True))]), example_db) \<and>
   put_users None example_db (Some 7) (body_of [(''name'', JStr ''Zed'')])
     = (Responds 200 (Obj [(''success'', Val (JBool True))]), example_db)"
  using missing_key_is_silent_success [of example_db "Some 7" "body_of [(''name'', JStr ''Zed'')]"]
  by (simp add: example_db_def admin_row_def bob_row_def body_of_def)

text \<open>
  The claim as stated, for every update request, fails when a field is a boolean: the
  driver refuses to bind it. PUT /api/team/7 with \<^verbatim>\<open>{name: true}\<close> throws out of the handler,
  which Express answers with status 500; PUT /api/users/7 answers status 500 with
  \<^verbatim>\<open>Failed to update user\<close>.
\<close>

theorem missing_key_claim_counterexample:
  "put_team None example_db (Some 7) (body_of [(''name'', JBool True)])
     = (Throws bind_type_error, example_db) \<and>
   express True (fst (put_team None example_db (Some 7) (body_of [(''name'', JBool True)])))
     = (500, Status_page ''Internal Server Error'') \<and>
   put_users None example_db (Some 7) (body_of [(''name'', JBool True)])
     = (Responds 500 (Obj [(''success'', Val (JBool False)),
                           (''message'', Val (JStr ''Failed to update user''))]), example_db)"
  by (simp add: put_team_def put_users_def with_params_def bind_type_error_def express_def
      failure_def body_of_def Let_def)


section \<open>Failures of the store\<close>

text \<open>
  The users handlers catch a failure of the store: status 400 for a uniqueness
  violation, status 500 with a short message otherwise.
\<close>

lemma users_handlers_translate_failures:
  "plain (b ''username'') \<and> plain (b ''password'') \<and> plain (b ''name'') \<and>
   plain (js_or (b ''role'') (JStr ''editor'')) \<Longrightarrow>
   post_users (Some e) d b =
     (if err_code e = Some ''SQLITE_CONSTRAINT_UNIQUE''
      then (Responds 400 (failure ''Username already exists''), d)
      else (Responds 500 (failure ''Failed to create user''), d))"
  "plain (b ''username'') \<and> plain (b ''password'') \<and> plain (b ''name'') \<and> plain (b ''role'') \<Longrightarrow>
   put_users (Some e) d rid b =
     (if err_code e = Some ''SQLITE_CONSTRAINT_UNIQUE''
      then (Responds 400 (failure ''Username already exists''), d)
      else (Responds 500 (failure ''Failed to update user''), d))"
  "delete_users (Some e) d rid = (Responds 500 (failure ''Failed to delete user''), d)"
  by (simp_all add: post_users_def put_users_def delete_users_def with_params_plain
      insert_user_def update_user_with_password_def update_user_keep_password_def
      update_users_where_id_def delete_user_def Let_def)

text \<open>
  The services and team handlers, and the three list handlers, have no try/catch: a
  failure of the store leaves the handler.
\<close>

lemma services_team_handlers_rethrow:
  "plain (b ''title'') \<and> plain (b ''description'') \<and> plain (b ''icon'') \<and>
   plain (b ''file_url'') \<Longrightarrow> post_services (Some e) d b = (Throws e, d)"
  "plain (b ''title'') \<and> plain (b ''description'') \<and> plain (b ''icon'') \<and>
   plain (b ''file_url'') \<Longrightarrow> put_services (Some e) d rid b = (Throws e, d)"
  "delete_services (Some e) d rid = (Throws e, d)"
  "plain (b ''name'') \<and> plain (b ''title'') \<and> plain (b ''image'') \<and> plain (b ''icon'')
   \<Longrightarrow> post_team (Some e) d b = (Throws e, d)"
  "plain (b ''name'') \<and> plain (b ''title'') \<and> plain (b ''image'') \<and> plain (b ''icon'')
   \<Longrightarrow> put_team (Some e) d rid b = (Throws e, d)"
  "delete_team_member (Some e) d rid = (Throws e, d)"
  "get_users (Some e) d = Throws e"
  "get_services (Some e) d = Throws e"
  "get_team (Some e) d = Throws e"
  by (simp_all add: post_services_def put_services_def delete_services_def post_team_def
      put_team_def delete_team_member_def with_params_plain insert_service_def
      update_service_def delete_service_def insert_team_def update_team_def delete_team_def
      Let_def get_users_def get_services_def get_team_def)

text \<open>
  C8 does not hold of the services and team handlers outside production mode. At a
  failure of the store that is no uniqueness violation (here a full disk), every
  services and team write, and every list request, is answered by Express's default
  error handler: status 500 with an HTML page that shows the exception with its stack
  when \<^verbatim>\<open>NODE_ENV\<close> is not \<^verbatim>\<open>production\<close>, and the text \<^verbatim>\<open>Internal Server Error\<close> when it is.
  The users writes answer the same failure with status 500 and the short JSON messages
  \<^verbatim>\<open>Failed to create user\<close>, \<^verbatim>\<open>Failed to update user\<close> and \<^verbatim>\<open>Failed to delete user\<close>.
\<close>

theorem services_team_failure_answer:
  "express False (fst (post_services (Some disk_full) example_db (body_of [(''title'', JStr ''t'')])))
     = (500, Stack_page disk_full) \<and>
   express False (fst (put_services (Some disk_full) example_db (Some 1)
       (body_of [(''title'', JStr ''t'')])))
     = (500, Stack_page disk_full) \<and>
   express False (fst (delete_services (Some disk_full) example_db (Some 1)))
     = (500, Stack_page disk_full) \<and>
   express False (fst (post_team (Some disk_full) example_db (body_of [(''name'', JStr ''n'')])))
     = (500, Stack_page disk_full) \<and>
   express False (fst (put_team (Some disk_full) example_db (Some 1)
       (body_of [(''name'', JStr ''n'')])))
     = (500, Stack_page disk_full) \<and>
   express False (fst (delete_team_member (Some disk_full) example_db (Some 1)))
     = (500, Stack_page disk_full) \<and>
   express False (get_services (Some disk_full) example_db) = (500, Stack_page disk_full) \<and>
   express False (get_team (Some disk_full) example_db) = (500, Stack_page disk_full) \<and>
   express False (get_users (Some disk_full) example_db) = (500, Stack_page disk_full) \<and>
   express True (fst (post_services (Some disk_full) example_db (body_of [(''title'', JStr ''t'')])))
     = (500, Status_page ''Internal Server Error'') \<and>
   express False (fst (post_users (Some disk_full) example_db (body_of [(''username'', JStr ''eve'')])))
     = (500, Json_body (Obj [(''success'', Val (JBool False)),
                             (''message'', Val (JStr ''Failed to create user''))])) \<and>
   express False (fst (put_users (Some disk_full) example_db (Some 1)
       (body_of [(''username'', JStr ''eve'')])))
     = (500, Json_body (Obj [(''success'', Val (JBool False)),
                             (''message'', Val (JStr ''Failed to update user''))])) \<and>
   express False (fst (delete_users (Some disk_full) example_db (Some 1)))
     = (500, Json_body (Obj [(''success'', Val (JBool False)),
                             (''message'', Val (JStr ''Failed to delete user''))]))"
  by (simp add: services_team_handlers_rethrow users_handlers_translate_failures express_def
      body_of_def js_or_def disk_full_def failure_def)


section \<open>Upload: the responses\<close>


lemma show_nat_digits: "set (show_nat n) \<subseteq> set ''0123456789''"
proof (induction n rule: show_nat.induct)
  case (1 n)
  have k: "digit_char k \<in> set ''0123456789''" if "k < 10" for k
    unfolding digit_char_def using that by (intro nth_mem) simp
  show ?case
  proof (cases "n < 10")
    case True
    then show ?thesis using k [of n] by (subst show_nat.simps) simp
  next
    case False
    with 1 k [of "n mod 10"] show ?thesis
      by (subst show_nat.simps) auto
  qed
qed

lemma multer_parts_no_file:
  "files_of ps = [] \<Longrightarrow> multer_parts extname now rnd w file ps = (None, file)"
  by (induction ps) (auto split: part.splits elim: files_of.elims)

lemma multer_parts_first_file:
  "files_of ps = (n, originalname) # rest \<Longrightarrow>
   \<exists>ps'. files_of ps' = rest \<and>
     multer_parts extname now rnd w file ps
       = multer_parts extname now rnd w file (File_part n originalname # ps')"
proof (induction ps)
  case Nil
  then show ?case by simp
next
  case (Cons p ps)
  show ?case
  proof (cases p)
    case (Field_part k v)
    with Cons show ?thesis by simp
  next
    case (File_part k v)
    with Cons.prems show ?thesis by (intro exI [of _ ps]) simp
  qed
qed

text \<open>
  C9, as the code has it. POST /api/upload, by the files of the request. A request that
  is not multipart, and a multipart request without any file, is answered with status
  400 and \<^verbatim>\<open>No file uploaded\<close>. A body that cannot be parsed is answered with status 500
  and the parser's message. A request with exactly one file, under the field \<open>image\<close>,
  is answered with \<^verbatim>\<open>imageUrl\<close> = \<^verbatim>\<open>/uploads/\<close> followed by the millisecond timestamp in
  decimal digits, a dash, the random integer in decimal digits and the extension of
  the original name; when writing the file fails, with status 500 and the failure's
  message. A request whose first file is under another field is answered with status
  500 and \<^verbatim>\<open>Unexpected field\<close>; so is a request with a second file after a first one
  under \<open>image\<close> that was written.
\<close>

theorem post_upload_responses:
  "post_upload extname now rnd w Not_multipart
     = Responds 400 (Obj [(''success'', Val (JBool False)),
                          (''message'', Val (JStr ''No file uploaded''))]) \<and>
   post_upload extname now rnd w (Malformed e)
     = Responds 500 (Obj [(''success'', Val (JBool False)),
                          (''message'', Val (JStr (err_message e)))]) \<and>
   (files_of ps = [] \<longrightarrow>
      post_upload extname now rnd w (Multipart ps)
        = Responds 400 (Obj [(''success'', Val (JBool False)),
                             (''message'', Val (JStr ''No file uploaded''))])) \<and>
   (files_of ps = [(''image'', originalname)] \<longrightarrow>
      post_upload extname now rnd None (Multipart ps)
        = Responds 200 (Obj [(''success'', Val (JBool True)),
            (''imageUrl'', Val (JStr (''/uploads/'' @ show_nat now @ ''-'' @ show_nat rnd
                                       @ extname originalname)))]) \<and>
      post_upload extname now rnd (Some e) (Multipart ps)
        = Responds 500 (Obj [(''success'', Val (JBool False)),
                             (''message'', Val (JStr (err_message e)))])) \<and>
   (files_of ps = (n, originalname) # rest \<and> n \<noteq> ''image'' \<longrightarrow>
      post_upload extname now rnd w (Multipart ps)
        = Responds 500 (Obj [(''success'', Val (JBool False)),
                             (''message'', Val (JStr ''Unexpected field''))])) \<and>
   (files_of ps = (''image'', originalname) # second # rest \<longrightarrow>
      post_upload extname now rnd None (Multipart ps)
        = Responds 500 (Obj [(''success'', Val (JBool False)),
                             (''message'', Val (JStr ''Unexpected field''))])) \<and>
   set (show_nat now) \<subseteq> set ''0123456789'' \<and> set (show_nat rnd) \<subseteq> set ''0123456789''"
proof (intro conjI impI)
  show "post_upload extname now rnd w Not_multipart
     = Responds 400 (Obj [(''success'', Val (JBool False)),
                          (''message'', Val (JStr ''No file uploaded''))])"
    by (simp add: post_upload_def upload_single_def upload_callback_def failure_def)
  show "post_upload extname now rnd w (Malformed e)
     = Responds 500 (Obj [(''success'', Val (JBool False)),
                          (''message'', Val (JStr (err_message e)))])"
    by (simp add: post_upload_def upload_single_def upload_callback_def failure_def)
  show "set (show_nat now) \<subseteq> set ''0123456789''" "set (show_nat rnd) \<subseteq> set ''0123456789''"
    by (rule show_nat_digits)+
next
  assume "files_of ps = []"
  then show "post_upload extname now rnd w (Multipart ps)
        = Responds 400 (Obj [(''success'', Val (JBool False)),
                             (''message'', Val (JStr ''No file uploaded''))])"
    by (simp add: post_upload_def upload_single_def upload_callback_def failure_def
        multer_parts_no_file)
next
  assume h: "files_of ps = [(''image'', originalname)]"
  from multer_parts_first_file [OF h, of extname now rnd None None]
  show "post_upload extname now rnd None (Multipart ps)
        = Responds 200 (Obj [(''success'', Val (JBool True)),
            (''imageUrl'', Val (JStr (''/uploads/'' @ show_nat now @ ''-'' @ show_nat rnd
                                       @ extname originalname)))])"
    by (auto simp: post_upload_def upload_single_def upload_callback_def
        multer_parts_no_file storage_filename_def Let_def)
  from multer_parts_first_file [OF h, of extname now rnd "Some e" None]
  show "post_upload extname now rnd (Some e) (Multipart ps)
        = Responds 500 (Obj [(''success'', Val (JBool False)),
                             (''message'', Val (JStr (err_message e)))])"
    by (auto simp: post_upload_def upload_single_def upload_callback_def failure_def)
next
  assume h: "files_of ps = (n, originalname) # rest \<and> n \<noteq> ''image''"
  from multer_parts_first_file [OF h [THEN conjunct1], of extname now rnd w None] h
  show "post_upload extname now rnd w (Multipart ps)
        = Responds 500 (Obj [(''success'', Val (JBool False)),
                             (''message'', Val (JStr ''Unexpected field''))])"
    by (auto simp: post_upload_def upload_single_def upload_callback_def failure_def
        unexpected_field_def)
next
  assume h: "files_of ps = (''image'', originalname) # second # rest"
  obtain n2 o2 where s: "second = (n2, o2)"
    by (cases second)
  from multer_parts_first_file [OF h, of extname now rnd None None]
  obtain ps' where r: "files_of ps' = second # rest"
    and m: "multer_parts extname now rnd None None ps
              = multer_parts extname now rnd None None (File_part ''image'' originalname # ps')"
    by blast
  from multer_parts_first_file [OF r [unfolded s], of extname now rnd None
      "Some (storage_filename extname now rnd originalname)"]
  have "multer_parts extname now rnd None
          (Some (storage_filename extname now rnd originalname)) ps'
        = (Some unexpected_field, None)"
    by auto
  with m show "post_upload extname now rnd None (Multipart ps)
        = Responds 500 (Obj [(''success'', Val (JBool False)),
                             (''message'', Val (JStr ''Unexpected field''))])"
    by (simp add: post_upload_def upload_single_def upload_callback_def failure_def
        unexpected_field_def)
qed

theorem post_upload_responses_witness:
  "post_upload (\<lambda>_. ''.png'') 1712345678901 123456789 None
       (Multipart [Field_part ''alt'' ''A photo'', File_part ''image'' ''photo.png''])
     = Responds 200 (Obj [(''success'', Val (JBool True)),
         (''imageUrl'', Val (JStr ''/uploads/1712345678901-123456789.png''))]) \<and>
   post_upload (\<lambda>_. ''.png'') 1712345678901 123456789
       (Some (JsError (Some ''ENOSPC'') ''ENOSPC: no space left on device, write''))
       (Multipart [Field_part ''alt'' ''A photo'', File_part ''image'' ''photo.png''])
     = Responds 500 (Obj [(''success'', Val (JBool False)),
         (''message'', Val (JStr ''ENOSPC: no space left on device, write''))]) \<and>
   post_upload (\<lambda>_. ''.png'') 1712345678901 123456789 None
       (Multipart [Field_part ''alt'' ''A photo''])
     = Responds 400 (Obj [(''success'', Val (JBool False)),
                          (''message'', Val (JStr ''No file uploaded''))]) \<and>
   post_upload (\<lambda>_. ''.png'') 1712345678901 123456789 None
       (Multipart [File_part ''image'' ''a.png'', File_part ''image'' ''b.png''])
     = Responds 500 (Obj [(''success'', Val (JBool False)),
                          (''message'', Val (JStr ''Unexpected field''))]) \<and>
   post_upload (\<lambda>_. ''.png'') 1712345678901 123456789 None
       (Multipart [File_part ''avatar'' ''a.png'', Field_part ''alt'' ''A photo''])
     = Responds 500 (Obj [(''success'', Val (JBool False)),
                          (''message'', Val (JStr ''Unexpected field''))])"
proof -
  let ?e = "JsError (Some ''ENOSPC'') ''ENOSPC: no space left on device, write''"
  have 1: "show_nat 1712345678901 = ''1712345678901''"
    by (simp add: show_nat.simps digit_char_def)
  have 2: "show_nat 123456789 = ''123456789''"
    by (simp add: show_nat.simps digit_char_def)
  have a: "post_upload (\<lambda>_. ''.png'') 1712345678901 123456789 None
       (Multipart [Field_part ''alt'' ''A photo'', File_part ''image'' ''photo.png''])
     = Responds 200 (Obj [(''success'', Val (JBool True)),
         (''imageUrl'', Val (JStr ''/uploads/1712345678901-123456789.png''))])"
    and b: "post_upload (\<lambda>_. ''.png'') 1712345678901 123456789 (Some ?e)
       (Multipart [Field_part ''alt'' ''A photo'', File_part ''image'' ''photo.png''])
     = Responds 500 (Obj [(''success'', Val (JBool False)),
         (''message'', Val (JStr ''ENOSPC: no space left on device, write''))])"
    using post_upload_responses [of "\<lambda>_. ''.png''" 1712345678901 123456789 None ?e
        "[Field_part ''alt'' ''A photo'', File_part ''image'' ''photo.png'']" "''photo.png''"]
    by (simp_all add: 1 2)
  have c: "post_upload (\<lambda>_. ''.png'') 1712345678901 123456789 None
       (Multipart [Field_part ''alt'' ''A photo''])
     = Responds 400 (Obj [(''success'', Val (JBool False)),
                          (''message'', Val (JStr ''No file uploaded''))])"
    using post_upload_responses [of "\<lambda>_. ''.png''" 1712345678901 123456789 None ?e
        "[Field_part ''alt'' ''A photo'']"]
    by simp
  have d: "post_upload (\<lambda>_. ''.png'') 1712345678901 123456789 None
       (Multipart [File_part ''image'' ''a.png'', File_part ''image'' ''b.png''])
     = Responds 500 (Obj [(''success'', Val (JBool False)),
                          (''message'', Val (JStr ''Unexpected field''))])"
    using post_upload_responses [of "\<lambda>_. ''.png''" 1712345678901 123456789 None ?e
        "[File_part ''image'' ''a.png'', File_part ''image'' ''b.png'']" "''a.png''" "''x''" "[]"
        "(''image'', ''b.png'')"]
    by simp
  have f: "post_upload (\<lambda>_. ''.png'') 1712345678901 123456789 None
       (Multipart [File_part ''avatar'' ''a.png'', Field_part ''alt'' ''A photo''])
     = Responds 500 (Obj [(''success'', Val (JBool False)),
                          (''message'', Val (JStr ''Unexpected field''))])"
    using post_upload_responses [of "\<lambda>_. ''.png''" 1712345678901 123456789 None ?e
        "[File_part ''avatar'' ''a.png'', Field_part ''alt'' ''A photo'']" "''a.png''"
        "''avatar''" "[]"]
    by simp
  from a b c d f show ?thesis by (simp only:)
qed

text \<open>
  The claim as stated fails on a request whose only file is under another field than
  \<open>image\<close>: it has no file under the fixed field name, and the answer is status 500 with
  \<^verbatim>\<open>Unexpected field\<close>, not status 400.
\<close>

theorem post_upload_claim_counterexample:
  "files_of [File_part ''file'' ''a.png''] = [(''file'', ''a.png'')] \<and>
   post_upload (\<lambda>_. ''.png'') 1712345678901 123456789 None
       (Multipart [File_part ''file'' ''a.png''])
     = Responds 500 (Obj [(''success'', Val (JBool False)),
                          (''message'', Val (JStr ''Unexpected field''))])"
  by (simp add: post_upload_def upload_single_def upload_callback_def failure_def
      unexpected_field_def)


section \<open>A falsy password in an update\<close>


lemma put_users_error_or_store:
  "(\<exists>n msg. put_users fault d rid b = (Responds n (failure msg), d)) \<or>
   (\<exists>d'. put_users fault d rid b = (Responds 200 success, d') \<and>
      (if truthy (b ''password'')
       then \<exists>vs. update_user_with_password fault d (vs ! 0) (vs ! 1) (vs ! 2) (vs ! 3) rid = Inr d'
              \<and> (scalar (b ''username'') \<and> scalar (b ''password'') \<and> scalar (b ''name'') \<and>
                   scalar (b ''role'') \<longrightarrow> vs ! 1 = sql_of (b ''password''))
       else \<exists>vs. update_user_keep_password fault d (vs ! 0) (vs ! 1) (vs ! 2) rid = Inr d'))"
proof (cases "truthy (b ''password'')")
  case False
  let ?w = "with_params 4 [b ''username'', b ''name'', b ''role'', id_argument]
              (\<lambda>vs. update_user_keep_password fault d (vs ! 0) (vs ! 1) (vs ! 2) rid)"
  have p: "put_users fault d rid b =
      (case ?w of
         Inr d' \<Rightarrow> (Responds 200 success, d')
       | Inl error \<Rightarrow>
           if err_code error = Some ''SQLITE_CONSTRAINT_UNIQUE''
           then (Responds 400 (failure ''Username already exists''), d)
           else (Responds 500 (failure ''Failed to update user''), d))"
    using False by (simp add: put_users_def Let_def)
  show ?thesis
  proof (cases ?w)
    case (Inl e)
    with p show ?thesis by auto
  next
    case (Inr d')
    with with_params_cases [of 4 "[b ''username'', b ''name'', b ''role'', id_argument]"
        "\<lambda>vs. update_user_keep_password fault d (vs ! 0) (vs ! 1) (vs ! 2) rid"]
    obtain vs where "update_user_keep_password fault d (vs ! 0) (vs ! 1) (vs ! 2) rid = Inr d'"
      by auto
    with p Inr False show ?thesis by auto
  qed
next
  case True
  let ?args = "[b ''username'', b ''password'', b ''name'', b ''role'', id_argument]"
  let ?exec = "\<lambda>vs. update_user_with_password fault d (vs ! 0) (vs ! 1) (vs ! 2) (vs ! 3) rid"
  let ?w = "with_params 5 ?args ?exec"
  have p: "put_users fault d rid b =
      (case ?w of
         Inr d' \<Rightarrow> (Responds 200 success, d')
       | Inl error \<Rightarrow>
           if err_code error = Some ''SQLITE_CONSTRAINT_UNIQUE''
           then (Responds 400 (failure ''Username already exists''), d)
           else (Responds 500 (failure ''Failed to update user''), d))"
    using True by (simp add: put_users_def Let_def)
  show ?thesis
  proof (cases ?w)
    case (Inl e)
    with p show ?thesis by auto
  next
    case (Inr d')
    show ?thesis
    proof (cases "bind_args 5 False ?args")
      case (Inl e)
      with Inr show ?thesis by (simp add: with_params_def)
    next
      case vs: (Inr vs)
      with Inr have ex: "?exec vs = Inr d'"
        by (simp add: with_params_def)
      have "vs ! 1 = sql_of (b ''password'')"
        if "scalar (b ''username'') \<and> scalar (b ''password'') \<and> scalar (b ''name'') \<and>
            scalar (b ''role'')"
      proof -
        from that have "\<forall>v\<in>set ?args. scalar v"
          by (simp add: id_argument_def)
        from bind_args_scalar [OF this vs] show ?thesis by simp
      qed
      with p Inr True ex show ?thesis by auto
    qed
  qed
qed

text \<open>
  C10, as the code has it. A PUT /api/users/:id request whose password field is falsy
  (the empty string, \<^verbatim>\<open>null\<close>, \<^verbatim>\<open>false\<close>, \<^verbatim>\<open>0\<close>) does exactly what the same request without the
  field does, and leaves every stored password as it was, whatever the other fields,
  the key and the state of the store. A request whose username, password, name and
  role are no arrays or objects sets no password to the empty string: a row whose
  password is empty after the request had the empty password before.
\<close>

theorem put_users_falsy_password:
  "(\<not> truthy (b ''password'') \<longrightarrow>
      put_users fault d rid b = put_users fault d rid (b(''password'' := JUndefined)) \<and>
      map u_password (users (snd (put_users fault d rid b))) = map u_password (users d)) \<and>
   (scalar (b ''username'') \<and> scalar (b ''password'') \<and> scalar (b ''name'') \<and>
    scalar (b ''role'') \<longrightarrow>
      (\<forall>r'\<in>set (users (snd (put_users fault d rid b))).
         u_password r' = SText [] \<longrightarrow>
         (\<exists>r\<in>set (users d). u_id r = u_id r' \<and> u_password r = SText [])))"
proof (intro conjI impI ballI)
  assume f: "\<not> truthy (b ''password'')"
  then show "put_users fault d rid b = put_users fault d rid (b(''password'' := JUndefined))"
    by (simp add: put_users_def Let_def)
  from put_users_error_or_store [of fault d rid b] f
  show "map u_password (users (snd (put_users fault d rid b))) = map u_password (users d)"
    by (auto dest: update_keep_password)
next
  fix r'
  assume sc: "scalar (b ''username'') \<and> scalar (b ''password'') \<and> scalar (b ''name'') \<and>
    scalar (b ''role'')"
    and r': "r' \<in> set (users (snd (put_users fault d rid b)))"
    and e: "u_password r' = SText []"
  from put_users_error_or_store [of fault d rid b]
  show "\<exists>r\<in>set (users d). u_id r = u_id r' \<and> u_password r = SText []"
  proof
    assume "\<exists>n msg. put_users fault d rid b = (Responds n (failure msg), d)"
    with r' e show ?thesis by auto
  next
    assume "\<exists>d'. put_users fault d rid b = (Responds 200 success, d') \<and>
      (if truthy (b ''password'')
       then \<exists>vs. update_user_with_password fault d (vs ! 0) (vs ! 1) (vs ! 2) (vs ! 3) rid = Inr d'
              \<and> (scalar (b ''username'') \<and> scalar (b ''password'') \<and> scalar (b ''name'') \<and>
                   scalar (b ''role'') \<longrightarrow> vs ! 1 = sql_of (b ''password''))
       else \<exists>vs. update_user_keep_password fault d (vs ! 0) (vs ! 1) (vs ! 2) rid = Inr d')"
    then obtain d' where d': "put_users fault d rid b = (Responds 200 success, d')"
      and c: "if truthy (b ''password'')
       then \<exists>vs. update_user_with_password fault d (vs ! 0) (vs ! 1) (vs ! 2) (vs ! 3) rid = Inr d'
              \<and> (scalar (b ''username'') \<and> scalar (b ''password'') \<and> scalar (b ''name'') \<and>
                   scalar (b ''role'') \<longrightarrow> vs ! 1 = sql_of (b ''password''))
       else \<exists>vs. update_user_keep_password fault d (vs ! 0) (vs ! 1) (vs ! 2) rid = Inr d'"
      by blast
    from r' d' have in': "r' \<in> set (users d')" by simp
    show ?thesis
    proof (cases "truthy (b ''password'')")
      case False
      with c obtain vs where
        "update_user_keep_password fault d (vs ! 0) (vs ! 1) (vs ! 2) rid = Inr d'"
        by auto
      then have "users d' = map (\<lambda>r. if Some (u_id r) = rid
                               then r\<lparr>u_username := vs ! 0, u_name := vs ! 1, u_role := vs ! 2\<rparr>
                               else r) (users d)"
        by (cases fault; cases rid)
           (auto simp: update_user_keep_password_def update_users_where_id_def split: if_splits)
      with in' obtain r where "r \<in> set (users d)"
        and "r' = (if Some (u_id r) = rid
                   then r\<lparr>u_username := vs ! 0, u_name := vs ! 1, u_role := vs ! 2\<rparr> else r)"
        by auto
      with e show ?thesis
        by (intro bexI[of _ r]) (auto split: if_splits)
    next
      case True
      with c sc obtain vs where
        u: "update_user_with_password fault d (vs ! 0) (vs ! 1) (vs ! 2) (vs ! 3) rid = Inr d'"
        and v: "vs ! 1 = sql_of (b ''password'')"
        by auto
      from update_with_password_rows [OF u] in' obtain r where "r \<in> set (users d)"
        and "r' = (if Some (u_id r) = rid
                   then r\<lparr>u_username := vs ! 0, u_password := vs ! 1, u_name := vs ! 2,
                          u_role := vs ! 3\<rparr> else r)"
        by auto
      with e v truthy_not_empty [OF True] show ?thesis
        by (intro bexI[of _ r]) (auto split: if_splits)
    qed
  qed
qed

theorem put_users_falsy_password_witness:
  "put_users None example_db (Some 2)
     (body_of [(''username'', JStr ''rob''), (''password'', JStr []), (''name'', JStr ''Rob''),
               (''role'', JStr ''editor'')])
     = put_users None example_db (Some 2)
         ((body_of [(''username'', JStr ''rob''), (''password'', JStr []), (''name'', JStr ''Rob''),
               (''role'', JStr ''editor'')]) (''password'' := JUndefined)) \<and>
   map u_password (users (snd (put_users None example_db (Some 2)
     (body_of [(''username'', JStr ''rob''), (''password'', JStr []), (''name'', JStr ''Rob''),
               (''role'', JStr ''editor'')]))))
     = [SText ''123456'', SText ''secret'']"
proof -
  let ?b = "body_of [(''username'', JStr ''rob''), (''password'', JStr []), (''name'', JStr ''Rob''),
               (''role'', JStr ''editor'')]"
  have f: "\<not> truthy (?b ''password'')"
    by (simp add: body_of_def)
  from put_users_falsy_password [of ?b None example_db "Some 2"] f
  have "put_users None example_db (Some 2) ?b
          = put_users None example_db (Some 2) (?b (''password'' := JUndefined))"
    and "map u_password (users (snd (put_users None example_db (Some 2) ?b)))
          = map u_password (users example_db)"
    by blast+
  moreover have "map u_password (users example_db) = [SText ''123456'', SText ''secret'']"
    by (simp add: example_db_def admin_row_def bob_row_def)
  ultimately show ?thesis
    by (simp only:)
qed

text \<open>
  The claim's conclusion, that no update request can set a password to the empty string,
  fails on a password that is the array holding the empty string: an array is truthy,
  and the driver spreads it over the parameters, so that the UPDATE stores the empty
  string.
\<close>

theorem put_users_falsy_password_counterexample:
  "truthy (JArr [JStr []]) \<and>
   put_users None example_db (Some 2)
     (body_of [(''username'', JStr ''bob''), (''password'', JArr [JStr []]),
               (''name'', JStr ''Bob''), (''role'', JStr ''editor'')])
     = (Responds 200 (Obj [(''success'', Val (JBool True))]),
        example_db\<lparr>users := [admin_row, bob_row\<lparr>u_password := SText []\<rparr>]\<rparr>) \<and>
   map u_password (users example_db) = [SText ''123456'', SText ''secret'']"
  by (simp add: put_users_def with_params_def
      update_user_with_password_def update_users_where_id_def Let_def unique_violation_def
      example_db_def admin_row_def bob_row_def body_of_def sql_eq_def id_argument_def success_def)


end
